theory Spec2Isabelle
  imports Complex_Main "HOL-Library.Log_Nat"
begin

section \<open>The receipt scanner of \<^verbatim>\<open>main.go\<close>\<close>

text \<open>
  The program is one Go file: a handler \<^verbatim>\<open>scanReceipt\<close> that tallies the points of a
  receipt and stores them in the global map \<^verbatim>\<open>receiptPoints\<close> under a fresh UUID, and a
  handler \<^verbatim>\<open>getPoints\<close> that reads the map.  The handlers call the Go standard library
  (\<^verbatim>\<open>strconv.ParseFloat\<close>, \<^verbatim>\<open>time.Parse\<close>, \<^verbatim>\<open>strings.TrimSpace\<close>, \<^verbatim>\<open>unicode.IsLetter\<close>,
  \<^verbatim>\<open>math.Floor\<close>, \<^verbatim>\<open>math.Mod\<close>, \<^verbatim>\<open>math.Ceil\<close>); the first sections model the library
  functions as the Go documentation and sources describe them, the later ones the two
  handlers.

  A Go \<^verbatim>\<open>string\<close> is a sequence of bytes: it is an Isabelle \<^typ>\<open>string\<close>, whose
  characters are 8-bit.  A \<^verbatim>\<open>rune\<close> (a code point) is a \<^typ>\<open>nat\<close>.  Go's \<^verbatim>\<open>int\<close> is
  taken as 64 bits wide (the size on amd64 and arm64): an \<^typ>\<open>int\<close> that every
  addition wraps into the signed 64-bit range.
\<close>

subsection \<open>float64\<close>

text \<open>
  A \<^verbatim>\<open>float64\<close> is a finite binary fraction, an infinity or a NaN.  A finite value is
  represented by the rational number it denotes, so that the arithmetic on finite values
  is exact arithmetic followed by rounding to the nearest double (ties to even), as
  IEEE 754 defines it.  The model does not tell \<^verbatim>\<open>-0\<close> from \<^verbatim>\<open>0\<close>: the program compares,
  rounds and converts its floats, and none of these tells the two zeros apart.
\<close>

datatype float64 = Finite rat | PosInf | NegInf | NaN

text \<open>The integer nearest to \<open>y\<close>, a tie going to the even neighbour.\<close>

definition round_half_even :: "rat \<Rightarrow> int" where
  "round_half_even y =
     (let f = \<lfloor>y\<rfloor>; r = y - of_int f
      in if r < 1 / 2 then f
         else if 1 / 2 < r then f + 1
         else if even f then f else f + 1)"

text \<open>
  The binary exponent of a positive rational: \<open>2 ^ ilog2 x \<le> x < 2 ^ (ilog2 x + 1)\<close>.
  \<^term>\<open>bitlen n\<close> is the number of binary digits of a positive integer \<open>n\<close>.
\<close>

definition ilog2 :: "rat \<Rightarrow> int" where
  "ilog2 x =
     (if 1 \<le> x then bitlen \<lfloor>x\<rfloor> - 1
      else - bitlen (\<lceil>1 / x\<rceil> - 1))"

text \<open>
  Rounding a rational to a double: 53 bits of precision, the unit in the last place never
  below \<open>2 ^ -1074\<close> (the subnormal range), and an infinity once the rounded magnitude
  reaches \<open>2 ^ 1024\<close>.
\<close>

definition round64 :: "rat \<Rightarrow> float64" where
  "round64 x =
     (if x = 0 then Finite 0
      else
        let q = max (ilog2 \<bar>x\<bar>) (- 1022) - 52;
            m = round_half_even (\<bar>x\<bar> / 2 powi q);
            y = of_int m * 2 powi q
        in if 2 ^ 1024 \<le> y then (if x < 0 then NegInf else PosInf)
           else Finite (if x < 0 then - y else y))"

text \<open>The product of two doubles (the \<^verbatim>\<open>*\<close> of \<^verbatim>\<open>priceFloat * 0.2\<close>).\<close>

fun fmul :: "float64 \<Rightarrow> float64 \<Rightarrow> float64" where
  "fmul (Finite x) (Finite y) = round64 (x * y)"
| "fmul NaN _ = NaN"
| "fmul _ NaN = NaN"
| "fmul (Finite x) PosInf = (if x = 0 then NaN else if x < 0 then NegInf else PosInf)"
| "fmul (Finite x) NegInf = (if x = 0 then NaN else if x < 0 then PosInf else NegInf)"
| "fmul PosInf (Finite y) = (if y = 0 then NaN else if y < 0 then NegInf else PosInf)"
| "fmul NegInf (Finite y) = (if y = 0 then NaN else if y < 0 then PosInf else NegInf)"
| "fmul PosInf PosInf = PosInf"
| "fmul PosInf NegInf = NegInf"
| "fmul NegInf PosInf = NegInf"
| "fmul NegInf NegInf = PosInf"

text \<open>The comparison \<^verbatim>\<open>==\<close> of two doubles: a NaN equals nothing, itself included.\<close>

fun feq :: "float64 \<Rightarrow> float64 \<Rightarrow> bool" where
  "feq (Finite x) (Finite y) = (x = y)"
| "feq PosInf PosInf = True"
| "feq NegInf NegInf = True"
| "feq _ _ = False"

text \<open>\<^verbatim>\<open>math.Floor\<close> and \<^verbatim>\<open>math.Ceil\<close>: exact on finite values, the identity on the others.\<close>

fun Floor :: "float64 \<Rightarrow> float64" where
  "Floor (Finite x) = Finite (of_int \<lfloor>x\<rfloor>)"
| "Floor f = f"

fun Ceil :: "float64 \<Rightarrow> float64" where
  "Ceil (Finite x) = Finite (of_int \<lceil>x\<rceil>)"
| "Ceil f = f"

text \<open>
  \<^verbatim>\<open>math.Mod(x, y)\<close>: the remainder of \<open>x / y\<close> truncated towards zero, with the sign of
  \<open>x\<close>; it is exact (the remainder of two doubles is a double).  The special cases are
  those of the Go documentation.
\<close>

fun Mod :: "float64 \<Rightarrow> float64 \<Rightarrow> float64" where
  "Mod (Finite x) (Finite y) =
     (if y = 0 then NaN
      else Finite (x - y * of_int (if x / y < 0 then \<lceil>x / y\<rceil> else \<lfloor>x / y\<rfloor>)))"
| "Mod (Finite x) PosInf = Finite x"
| "Mod (Finite x) NegInf = Finite x"
| "Mod _ _ = NaN"

text \<open>The constants \<^verbatim>\<open>0.2\<close>, \<^verbatim>\<open>0.25\<close> and \<^verbatim>\<open>0\<close> of the source, as doubles.\<close>

definition c0_2 :: float64 where
  "c0_2 = round64 (2 / 10)"

definition c0_25 :: float64 where
  "c0_25 = round64 (25 / 100)"

definition c0 :: float64 where
  "c0 = Finite 0"

subsection \<open>Bytes and digits\<close>

definition byte :: "char \<Rightarrow> nat" where
  "byte c = of_char c"

text \<open>\<^verbatim>\<open>'0' <= c && c <= '9'\<close>, and the value of a digit.\<close>

definition isDigit :: "char \<Rightarrow> bool" where
  "isDigit c = (48 \<le> byte c \<and> byte c \<le> 57)"

definition digitVal :: "char \<Rightarrow> nat" where
  "digitVal c = byte c - 48"

text \<open>
  \<^verbatim>\<open>lower(c)\<close> of package \<^verbatim>\<open>strconv\<close> is \<^verbatim>\<open>c | ('x' - 'X')\<close>: it sets the bit of value
  32.
\<close>

definition lower :: "char \<Rightarrow> nat" where
  "lower c = (if (byte c div 32) mod 2 = 0 then byte c + 32 else byte c)"

text \<open>A hexadecimal letter: \<^verbatim>\<open>'a' <= lower(c) && lower(c) <= 'f'\<close>.\<close>

definition isHexLetter :: "char \<Rightarrow> bool" where
  "isHexLetter c = (97 \<le> lower c \<and> lower c \<le> 102)"

subsection \<open>strconv.ParseFloat\<close>

text \<open>
  \<^verbatim>\<open>commonPrefixLenIgnoreCase(s, prefix)\<close>: the length of the longest common prefix,
  upper-case ASCII letters of \<open>s\<close> read as lower-case ones.
\<close>

fun commonPrefixLenIgnoreCase :: "string \<Rightarrow> string \<Rightarrow> nat" where
  "commonPrefixLenIgnoreCase [] prefix = 0"
| "commonPrefixLenIgnoreCase (c # s) [] = 0"
| "commonPrefixLenIgnoreCase (c # s) (p # prefix) =
     (let c' = (if 65 \<le> byte c \<and> byte c \<le> 90 then byte c + 32 else byte c)
      in if c' \<noteq> byte p then 0 else Suc (commonPrefixLenIgnoreCase s prefix))"

text \<open>
  \<^verbatim>\<open>special(s)\<close>: the infinities (\<^verbatim>\<open>inf\<close> and \<^verbatim>\<open>infinity\<close>, signed or not) and \<^verbatim>\<open>nan\<close>
  (unsigned only), in any case.  The result is the value and the number of bytes read.
\<close>

definition specialInf :: "bool \<Rightarrow> nat \<Rightarrow> string \<Rightarrow> (float64 \<times> nat) option" where
  "specialInf neg nsign s =
     (let n = commonPrefixLenIgnoreCase s ''infinity'';
          n = (if 3 < n \<and> n < 8 then 3 else n)
      in if n = 3 \<or> n = 8 then Some (if neg then NegInf else PosInf, nsign + n) else None)"

definition special :: "string \<Rightarrow> (float64 \<times> nat) option" where
  "special s =
     (case s of
        [] \<Rightarrow> None
      | c # cs \<Rightarrow>
          if c = CHR ''+'' \<or> c = CHR ''-'' then specialInf (c = CHR ''-'') 1 cs
          else if c = CHR ''i'' \<or> c = CHR ''I'' then specialInf False 0 s
          else if c = CHR ''n'' \<or> c = CHR ''N'' then
            (if commonPrefixLenIgnoreCase s ''nan'' = 3 then Some (NaN, 3) else None)
          else None)"

text \<open>
  The mantissa loop of \<^verbatim>\<open>readFloat\<close>.  The source keeps at most 19 digits of the mantissa
  and a flag that digits were dropped, and the conversion then rounds as if it had them
  all; the model keeps them all: \<open>M\<close> is the number the digits spell in the base, \<open>F\<close>
  how many of them follow the point.  The result is \<open>M\<close>, \<open>F\<close>, the three flags
  \<^verbatim>\<open>sawdot\<close>, \<^verbatim>\<open>sawdigits\<close> and \<^verbatim>\<open>underscores\<close>, and the bytes not read.
\<close>

fun mantLoop ::
  "nat \<Rightarrow> string \<Rightarrow> int \<Rightarrow> nat \<Rightarrow> bool \<Rightarrow> bool \<Rightarrow> bool \<Rightarrow>
     int \<times> nat \<times> bool \<times> bool \<times> bool \<times> string" where
  "mantLoop base [] M F sawdot sawdigits underscores =
     (M, F, sawdot, sawdigits, underscores, [])"
| "mantLoop base (c # cs) M F sawdot sawdigits underscores =
     (if c = CHR ''_'' then mantLoop base cs M F sawdot sawdigits True
      else if c = CHR ''.'' then
        (if sawdot then (M, F, sawdot, sawdigits, underscores, c # cs)
         else mantLoop base cs M F True sawdigits underscores)
      else if isDigit c then
        mantLoop base cs (M * int base + int (digitVal c)) (if sawdot then Suc F else F)
          sawdot True underscores
      else if base = 16 \<and> isHexLetter c then
        mantLoop base cs (M * 16 + int (lower c - 97 + 10)) (if sawdot then Suc F else F)
          sawdot True underscores
      else (M, F, sawdot, sawdigits, underscores, c # cs))"

text \<open>The digits of the exponent; the exponent stops growing at 10000, as in the source.\<close>

fun expLoop :: "string \<Rightarrow> int \<Rightarrow> bool \<Rightarrow> int \<times> bool \<times> string" where
  "expLoop [] e underscores = (e, underscores, [])"
| "expLoop (c # cs) e underscores =
     (if c = CHR ''_'' then expLoop cs e True
      else if isDigit c then
        expLoop cs (if e < 10000 then e * 10 + int (digitVal c) else e) underscores
      else (e, underscores, c # cs))"

text \<open>
  The optional exponent: \<^verbatim>\<open>e\<close> for a decimal number, \<^verbatim>\<open>p\<close> for a hexadecimal one, which
  must have it.  \<open>None\<close> is the source's return with \<^verbatim>\<open>ok\<close> false.
\<close>

definition expPart :: "nat \<Rightarrow> string \<Rightarrow> bool \<Rightarrow> (int \<times> bool \<times> string) option" where
  "expPart base rest underscores =
     (if rest \<noteq> [] \<and> lower (hd rest) = (if base = 16 then 112 else 101) then
        (case tl rest of
           [] \<Rightarrow> None
         | c # cs \<Rightarrow>
             let esign = (if c = CHR ''-'' then - 1 else 1 :: int);
                 ds = (if c = CHR ''+'' \<or> c = CHR ''-'' then cs else c # cs)
             in if ds = [] \<or> \<not> isDigit (hd ds) then None
                else (case expLoop ds 0 underscores of
                        (e, underscores', rest') \<Rightarrow> Some (esign * e, underscores', rest')))
      else if base = 16 then None
      else Some (0, underscores, rest))"

text \<open>
  \<^verbatim>\<open>underscoreOK(s)\<close>: an underscore stands only between two digits, or between a base
  prefix and a digit.  \<open>saw\<close> is the class of the last byte: 0 for the start of the
  number, 1 for a digit or a base prefix, 2 for an underscore, 3 for anything else.
\<close>

fun underscoreLoop :: "bool \<Rightarrow> nat \<Rightarrow> string \<Rightarrow> bool" where
  "underscoreLoop hex saw [] = (saw \<noteq> 2)"
| "underscoreLoop hex saw (c # cs) =
     (if isDigit c \<or> hex \<and> isHexLetter c then underscoreLoop hex 1 cs
      else if c = CHR ''_'' then (if saw \<noteq> 1 then False else underscoreLoop hex 2 cs)
      else if saw = 2 then False
      else underscoreLoop hex 3 cs)"

definition underscoreOK :: "string \<Rightarrow> bool" where
  "underscoreOK s0 =
     (let s = (if s0 \<noteq> [] \<and> (hd s0 = CHR ''-'' \<or> hd s0 = CHR ''+'') then tl s0 else s0)
      in if 2 \<le> length s \<and> hd s = CHR ''0'' \<and> lower (s ! 1) \<in> {98, 111, 120}
         then underscoreLoop (lower (s ! 1) = 120) 1 (drop 2 s)
         else underscoreLoop False 0 s)"

text \<open>
  \<^verbatim>\<open>readFloat(s)\<close>: sign, base, mantissa and exponent of a number in the syntax of Go's
  floating-point literals, and the bytes left over.  The value read is
  \<open>M * 10 ^ ex\<close>, or \<open>M * 2 ^ ex\<close> in base 16.
\<close>

definition readFloat :: "string \<Rightarrow> (bool \<times> nat \<times> int \<times> int \<times> string) option" where
  "readFloat s =
     (if s = [] then None
      else
        let neg = (hd s = CHR ''-'');
            s1 = (if hd s = CHR ''+'' \<or> hd s = CHR ''-'' then tl s else s);
            hex = (2 < length s1 \<and> hd s1 = CHR ''0'' \<and> lower (s1 ! 1) = 120);
            base = (if hex then 16 else 10 :: nat)
        in case mantLoop base (if hex then drop 2 s1 else s1) 0 0 False False False of
             (M, F, sawdot, sawdigits, underscores, rest) \<Rightarrow>
               if \<not> sawdigits then None
               else
                 (case expPart base rest underscores of
                    None \<Rightarrow> None
                  | Some (e, underscores', rest') \<Rightarrow>
                      if underscores' \<and> \<not> underscoreOK (take (length s - length rest') s)
                      then None
                      else Some (neg, base, M,
                                 e - (if hex then 4 * int F else int F), rest')))"

text \<open>
  \<^verbatim>\<open>strconv.ParseFloat(s, 64)\<close>: the double nearest to the number that the whole of \<open>s\<close>
  spells; \<open>None\<close> stands for a non-nil error, which is a syntax error, or a range error
  when the number rounds to an infinity.
\<close>

definition ParseFloat :: "string \<Rightarrow> float64 option" where
  "ParseFloat s =
     (case special s of
        Some (f, n) \<Rightarrow> if n = length s then Some f else None
      | None \<Rightarrow>
          (case readFloat s of
             None \<Rightarrow> None
           | Some (neg, base, M, ex, rest) \<Rightarrow>
               if rest \<noteq> [] then None
               else
                 (case round64 ((if neg then - 1 else 1) * of_int M
                                  * (if base = 16 then 2 else 10) powi ex) of
                    Finite v \<Rightarrow> Some (Finite v)
                  | _ \<Rightarrow> None)))"

subsection \<open>UTF-8\<close>

text \<open>
  The table \<^verbatim>\<open>first\<close> of package \<^verbatim>\<open>unicode/utf8\<close>: for a byte that starts a sequence of
  several bytes, the length of the sequence and the range that its second byte must lie
  in.  \<open>None\<close> is a byte that starts no such sequence.
\<close>

definition leadByte :: "nat \<Rightarrow> (nat \<times> nat \<times> nat) option" where
  "leadByte b =
     (if 194 \<le> b \<and> b \<le> 223 then Some (2, 128, 191)
      else if b = 224 then Some (3, 160, 191)
      else if 225 \<le> b \<and> b \<le> 236 then Some (3, 128, 191)
      else if b = 237 then Some (3, 128, 159)
      else if 238 \<le> b \<and> b \<le> 239 then Some (3, 128, 191)
      else if b = 240 then Some (4, 144, 191)
      else if 241 \<le> b \<and> b \<le> 243 then Some (4, 128, 191)
      else if b = 244 then Some (4, 128, 143)
      else None)"

definition RuneError :: nat where
  "RuneError = 65533"

definition contByte :: "nat \<Rightarrow> bool" where
  "contByte b = (128 \<le> b \<and> b \<le> 191)"

text \<open>
  \<^verbatim>\<open>utf8.DecodeRuneInString(s)\<close>: the first rune of \<open>s\<close> and its width in bytes; an
  encoding that is not valid gives \<^verbatim>\<open>RuneError\<close> with width 1, the empty string
  \<^verbatim>\<open>RuneError\<close> with width 0.
\<close>

definition DecodeRune :: "string \<Rightarrow> nat \<times> nat" where
  "DecodeRune s =
     (case map byte s of
        [] \<Rightarrow> (RuneError, 0)
      | b0 # bs \<Rightarrow>
          if b0 < 128 then (b0, 1)
          else
            (case leadByte b0 of
               None \<Rightarrow> (RuneError, 1)
             | Some (sz, lo, hi) \<Rightarrow>
                 if length s < sz then (RuneError, 1)
                 else if bs ! 0 < lo \<or> hi < bs ! 0 then (RuneError, 1)
                 else if sz \<le> 2 then (b0 mod 32 * 64 + bs ! 0 mod 64, 2)
                 else if \<not> contByte (bs ! 1) then (RuneError, 1)
                 else if sz \<le> 3 then
                   (b0 mod 16 * 4096 + bs ! 0 mod 64 * 64 + bs ! 1 mod 64, 3)
                 else if \<not> contByte (bs ! 2) then (RuneError, 1)
                 else (b0 mod 8 * 262144 + bs ! 0 mod 64 * 4096 + bs ! 1 mod 64 * 64
                         + bs ! 2 mod 64, 4)))"

text \<open>
  \<^verbatim>\<open>utf8.DecodeLastRuneInString(s)\<close>: the last rune of \<open>s\<close> and its width.  The source
  walks back from the last byte, over at most three bytes, to a byte that can start a
  rune, and decodes from there; the rune counts only if it ends where \<open>s\<close> ends.
\<close>

definition RuneStart :: "nat \<Rightarrow> bool" where
  "RuneStart b = (\<not> contByte b)"

text \<open>
  The loop \<^verbatim>\<open>for start--; start >= lim; start-- { if RuneStart(s[start]) { break } }\<close>
  followed by \<^verbatim>\<open>if start < 0 { start = 0 }\<close>.  The last argument is \<^verbatim>\<open>start + 1\<close>, and \<open>lo\<close> is
  the source's \<^verbatim>\<open>lim\<close>.
\<close>

fun scanBack :: "string \<Rightarrow> nat \<Rightarrow> nat \<Rightarrow> nat" where
  "scanBack s lo 0 = 0"
| "scanBack s lo (Suc i) =
     (if i < lo then i
      else if RuneStart (byte (s ! i)) then i
      else scanBack s lo i)"

definition DecodeLastRune :: "string \<Rightarrow> nat \<times> nat" where
  "DecodeLastRune s =
     (let end' = length s
      in if end' = 0 then (RuneError, 0)
         else if byte (last s) < 128 then (byte (last s), 1)
         else
           let lo = end' - 4;
               start = scanBack s lo (end' - 1);
               rs = DecodeRune (drop start s)
           in if start + snd rs \<noteq> end' then (RuneError, 1) else rs)"

text \<open>
  The loop \<^verbatim>\<open>for _, char := range s\<close>: the runes of \<open>s\<close> in order, each invalid byte
  giving one \<^verbatim>\<open>RuneError\<close>.
\<close>

lemma DecodeRune_width: "s \<noteq> [] \<Longrightarrow> 0 < snd (DecodeRune s)"
  by (cases s) (simp_all add: DecodeRune_def Let_def split: option.splits prod.splits)

function runes :: "string \<Rightarrow> nat list" where
  "runes s = (if s = [] then [] else fst (DecodeRune s) # runes (drop (snd (DecodeRune s)) s))"
  by pat_completeness auto
termination
  by (relation "measure length") (use DecodeRune_width in \<open>auto simp: less_Suc_eq_0_disj\<close>)

declare runes.simps [simp del]

subsection \<open>unicode\<close>

text \<open>
  \<^verbatim>\<open>unicode.IsLetter\<close> and \<^verbatim>\<open>unicode.IsDigit\<close> decide the runes up to U+00FF themselves and
  look the others up in the tables of the Unicode categories L and Nd.  The tables are
  not part of the program: they are the fields \<open>LetterTable\<close> and \<open>DigitTable\<close> of the
  platform (below).
\<close>

definition latin1Letter :: "nat \<Rightarrow> bool" where
  "latin1Letter r =
     (65 \<le> r \<and> r \<le> 90 \<or> 97 \<le> r \<and> r \<le> 122 \<or> r = 170 \<or> r = 181 \<or> r = 186
      \<or> 192 \<le> r \<and> r \<le> 214 \<or> 216 \<le> r \<and> r \<le> 246 \<or> 248 \<le> r \<and> r \<le> 255)"

text \<open>\<^verbatim>\<open>unicode.IsSpace\<close>: the runes with the Unicode property White Space.\<close>

definition IsSpace :: "nat \<Rightarrow> bool" where
  "IsSpace r =
     (if r \<le> 255 then 9 \<le> r \<and> r \<le> 13 \<or> r = 32 \<or> r = 133 \<or> r = 160
      else r = 5760 \<or> 8192 \<le> r \<and> r \<le> 8202 \<or> r = 8232 \<or> r = 8233 \<or> r = 8239
           \<or> r = 8287 \<or> r = 12288)"

subsection \<open>strings.TrimSpace\<close>

text \<open>The table \<^verbatim>\<open>asciiSpace\<close>: tab, line feed, vertical tab, form feed, return, space.\<close>

definition asciiSpace :: "char \<Rightarrow> bool" where
  "asciiSpace c = (9 \<le> byte c \<and> byte c \<le> 13 \<or> byte c = 32)"

text \<open>
  \<^verbatim>\<open>strings.TrimLeftFunc(s, unicode.IsSpace)\<close>: \<open>s\<close> from its first rune that is not a
  space.
\<close>

function TrimLeftSpace :: "string \<Rightarrow> string" where
  "TrimLeftSpace s =
     (if s = [] then []
      else if IsSpace (fst (DecodeRune s)) then TrimLeftSpace (drop (snd (DecodeRune s)) s)
      else s)"
  by pat_completeness auto
termination
  by (relation "measure length") (use DecodeRune_width in \<open>auto simp: less_Suc_eq_0_disj\<close>)

declare TrimLeftSpace.simps [simp del]

text \<open>
  \<^verbatim>\<open>lastIndexFunc(s, unicode.IsSpace, false)\<close> on the first \<open>i\<close> bytes of \<open>s\<close>: the index
  where the last rune that is not a space starts; \<open>None\<close> is the source's \<open>-1\<close>.
\<close>

lemma scanBack_le: "scanBack s lo k \<le> k"
  by (induction k) auto

lemma DecodeLastRune_width: "s \<noteq> [] \<Longrightarrow> 0 < snd (DecodeLastRune s)"
proof -
  assume "s \<noteq> []"
  let ?start = "scanBack s (length s - 4) (length s - 1)"
  have "?start \<le> length s - 1"
    by (rule scanBack_le)
  with \<open>s \<noteq> []\<close> have "drop ?start s \<noteq> []"
    by (cases s) auto
  then have "0 < snd (DecodeRune (drop ?start s))"
    by (rule DecodeRune_width)
  with \<open>s \<noteq> []\<close> show ?thesis
    by (simp add: DecodeLastRune_def Let_def)
qed

lemma DecodeLastRune_space_width:
  "IsSpace (fst (DecodeLastRune s)) \<Longrightarrow> 0 < snd (DecodeLastRune s)"
proof (cases "s = []")
  case True
  assume "IsSpace (fst (DecodeLastRune s))"
  with True show ?thesis
    by (simp add: DecodeLastRune_def IsSpace_def RuneError_def)
next
  case False
  then show ?thesis
    by (rule DecodeLastRune_width)
qed

function lastIndexNotSpace :: "string \<Rightarrow> nat \<Rightarrow> nat option" where
  "lastIndexNotSpace s i =
     (if i = 0 then None
      else
        let (r, size) = DecodeLastRune (take i s)
        in if \<not> IsSpace r then Some (i - size) else lastIndexNotSpace s (i - size))"
  by pat_completeness auto
termination
proof (relation "measure snd")
  fix s :: string and i :: nat and x :: "nat \<times> nat" and r size'
  assume "i \<noteq> 0" and x: "x = DecodeLastRune (take i s)" and "(r, size') = x"
    and "\<not> \<not> IsSpace r"
  then have "IsSpace (fst (DecodeLastRune (take i s)))"
    by (metis fst_conv)
  then have "0 < snd (DecodeLastRune (take i s))"
    by (rule DecodeLastRune_space_width)
  with \<open>(r, size') = x\<close> x have "0 < size'"
    by (metis snd_conv)
  with \<open>i \<noteq> 0\<close> show "((s, i - size'), s, i) \<in> measure snd"
    by simp
qed simp

declare lastIndexNotSpace.simps [simp del]

text \<open>
  \<^verbatim>\<open>strings.TrimRightFunc(s, unicode.IsSpace)\<close>: \<open>s\<close> up to the end of its last rune that
  is not a space.
\<close>

definition TrimRightSpace :: "string \<Rightarrow> string" where
  "TrimRightSpace s =
     (case lastIndexNotSpace s (length s) of
        None \<Rightarrow> []
      | Some i \<Rightarrow>
          if 128 \<le> byte (s ! i) then take (i + snd (DecodeRune (drop i s))) s
          else take (i + 1) s)"

text \<open>
  \<^verbatim>\<open>strings.TrimSpace(s)\<close>.  The source walks over the ASCII spaces at the start, then
  over those at the end, and hands over to the functions above at the first byte that
  is not ASCII.  \<open>trimTail\<close> is the second loop, on the reversed string.
\<close>

fun trimTail :: "string \<Rightarrow> string" where
  "trimTail [] = []"
| "trimTail (c # cs) =
     (if 128 \<le> byte c then TrimRightSpace (rev (c # cs))
      else if asciiSpace c then trimTail cs
      else rev (c # cs))"

fun TrimSpace :: "string \<Rightarrow> string" where
  "TrimSpace [] = []"
| "TrimSpace (c # cs) =
     (if 128 \<le> byte c then TrimRightSpace (TrimLeftSpace (c # cs))
      else if asciiSpace c then TrimSpace cs
      else trimTail (rev (c # cs)))"

subsection \<open>time.Parse\<close>

text \<open>
  \<^verbatim>\<open>getnum(s, fixed)\<close> of package \<^verbatim>\<open>time\<close>: a number of two digits, or of one digit when
  \<open>fixed\<close> is false and no second digit follows; the result is the number and the rest
  of the string.
\<close>

definition getnum :: "string \<Rightarrow> bool \<Rightarrow> (nat \<times> string) option" where
  "getnum s fixed =
     (case s of
        [] \<Rightarrow> None
      | a # t \<Rightarrow>
          if \<not> isDigit a then None
          else
            (case t of
               [] \<Rightarrow> if fixed then None else Some (digitVal a, t)
             | b # u \<Rightarrow>
                 if \<not> isDigit b then (if fixed then None else Some (digitVal a, t))
                 else Some (digitVal a * 10 + digitVal b, u)))"

text \<open>\<^verbatim>\<open>isLeap(year)\<close> and \<^verbatim>\<open>daysIn(month, year)\<close>.\<close>

definition isLeap :: "nat \<Rightarrow> bool" where
  "isLeap year = (year mod 4 = 0 \<and> (year mod 100 \<noteq> 0 \<or> year mod 400 = 0))"

definition daysIn :: "nat \<Rightarrow> nat \<Rightarrow> nat" where
  "daysIn m year =
     (if m = 2 then (if isLeap year then 29 else 28)
      else if m = 4 \<or> m = 6 \<or> m = 9 \<or> m = 11 then 30
      else 31)"

text \<open>
  \<^verbatim>\<open>time.Parse("2006-01-02", s)\<close>: a year of four digits, a month and a day of two digits
  each, with hyphens between them and nothing after; the month within 1 to 12, the day
  within the month.  The result is year, month and day; \<open>None\<close> is a non-nil error.
\<close>

definition parseDate :: "string \<Rightarrow> (nat \<times> nat \<times> nat) option" where
  "parseDate s =
     (if length s < 4 \<or> \<not> list_all isDigit (take 4 s) then None
      else
        let year = foldl (\<lambda>n c. n * 10 + digitVal c) 0 (take 4 s)
        in case drop 4 s of
             [] \<Rightarrow> None
           | h1 # s1 \<Rightarrow>
               if h1 \<noteq> CHR ''-'' then None
               else
                 (case getnum s1 True of
                    None \<Rightarrow> None
                  | Some (month, s2) \<Rightarrow>
                      if month = 0 \<or> 12 < month then None
                      else
                        (case s2 of
                           [] \<Rightarrow> None
                         | h2 # s3 \<Rightarrow>
                             if h2 \<noteq> CHR ''-'' then None
                             else
                               (case getnum s3 True of
                                  None \<Rightarrow> None
                                | Some (day, s4) \<Rightarrow>
                                    if s4 \<noteq> [] then None
                                    else if day < 1 \<or> daysIn month year < day then None
                                    else Some (year, month, day)))))"

text \<open>
  \<^verbatim>\<open>time.Parse("15:04", s)\<close>: an hour of one or two digits below 24, a colon, a minute of two
  digits below 60, and nothing after.  The result is hour and minute.
\<close>

definition parseClock :: "string \<Rightarrow> (nat \<times> nat) option" where
  "parseClock s =
     (case getnum s False of
        None \<Rightarrow> None
      | Some (hour, s1) \<Rightarrow>
          if 24 \<le> hour then None
          else
            (case s1 of
               [] \<Rightarrow> None
             | h # s2 \<Rightarrow>
                 if h \<noteq> CHR '':'' then None
                 else
                   (case getnum s2 True of
                      None \<Rightarrow> None
                    | Some (minute, s3) \<Rightarrow>
                        if 60 \<le> minute then None
                        else if s3 \<noteq> [] then None
                        else Some (hour, minute))))"

subsection \<open>What the program leaves to the platform\<close>

text \<open>
  Three things are fixed outside the program and its documented library: the Unicode
  tables of letters and decimal digits above U+00FF; the result of converting to \<^verbatim>\<open>int\<close> a
  float that no \<^verbatim>\<open>int\<close> represents (a NaN, an infinity or a value out of range), which
  the Go specification leaves to the implementation; and the UUIDs that
  \<^verbatim>\<open>uuid.New()\<close> draws from the random source, here the sequence \<open>uuidNew 0\<close>,
  \<open>uuidNew 1\<close>, \<open>\<dots>\<close> of the identifiers drawn during the life of the process.
  Every definition that depends on one of them takes the platform as its first
  argument, and every theorem holds for all platforms.
\<close>

record platform =
  LetterTable :: "nat \<Rightarrow> bool"
  DigitTable :: "nat \<Rightarrow> bool"
  intOutOfRange :: "float64 \<Rightarrow> int"
  uuidNew :: "nat \<Rightarrow> string"

definition IsLetter :: "platform \<Rightarrow> nat \<Rightarrow> bool" where
  "IsLetter P r = (if r \<le> 255 then latin1Letter r else LetterTable P r)"

definition IsDigit :: "platform \<Rightarrow> nat \<Rightarrow> bool" where
  "IsDigit P r = (if r \<le> 255 then 48 \<le> r \<and> r \<le> 57 else DigitTable P r)"

subsection \<open>int\<close>

text \<open>An integer wrapped into the range of a signed 64-bit \<^verbatim>\<open>int\<close>.\<close>

definition wrap64 :: "int \<Rightarrow> int" where
  "wrap64 n = (n + 2 ^ 63) mod 2 ^ 64 - 2 ^ 63"

text \<open>\<^verbatim>\<open>totalPoints += n\<close>.\<close>

definition add64 :: "int \<Rightarrow> int \<Rightarrow> int" where
  "add64 a b = wrap64 (a + b)"

definition mul64 :: "int \<Rightarrow> int \<Rightarrow> int" where
  "mul64 a b = wrap64 (a * b)"

text \<open>
  The conversion \<^verbatim>\<open>int(f)\<close>: the fraction is dropped (rounding towards zero); a value
  that does not fit is left to the platform.
\<close>

definition intOfFloat :: "platform \<Rightarrow> float64 \<Rightarrow> int" where
  "intOfFloat P f =
     (case f of
        Finite x \<Rightarrow>
          (let t = (if x < 0 then \<lceil>x\<rceil> else \<lfloor>x\<rfloor>)
           in if - (2 ^ 63) \<le> t \<and> t < 2 ^ 63 then t else wrap64 (intOutOfRange P f))
      | _ \<Rightarrow> wrap64 (intOutOfRange P f))"

subsection \<open>The receipt\<close>

record Item =
  Description :: string
  Price :: string

record Receipt =
  Retailer :: string
  Date :: string
  Time :: string
  Items :: "Item list"
  Total :: string

subsection \<open>Tallying the points\<close>

text \<open>
  The four ways in which \<^verbatim>\<open>scanReceipt\<close> gives up on a receipt that it could read, in
  the order of the source; the last one carries \<^verbatim>\<open>item.Description\<close>.  Each has its
  own message.
\<close>

datatype failure = InvalidTotal | InvalidDate | InvalidTime | InvalidItemPrice string

fun failureMessage :: "failure \<Rightarrow> string" where
  "failureMessage InvalidTotal = ''Failed to parse receipt total to float.''"
| "failureMessage InvalidDate = ''Failed to parse receipt purchaseDate.''"
| "failureMessage InvalidTime = ''Failed to parse receipt purchaseTime.''"
| "failureMessage (InvalidItemPrice description) =
     ''Failed to parse price to float for item: '' @ description"

text \<open>
  The slice \<^verbatim>\<open>retailerAlphanumericChars\<close>: the runes of the retailer name that are
  letters or digits.
\<close>

definition retailerAlphanumericChars :: "platform \<Rightarrow> Receipt \<Rightarrow> nat list" where
  "retailerAlphanumericChars P receipt =
     filter (\<lambda>char. IsLetter P char \<or> IsDigit P char) (runes (Retailer receipt))"

text \<open>
  The loop over the items.  \<^verbatim>\<open>len\<close> of a string is its number of bytes.  A price that
  does not parse ends the handler, and only the price of an item whose trimmed
  description has a length divisible by 3 is parsed.
\<close>

fun itemLoop :: "platform \<Rightarrow> Item list \<Rightarrow> int \<Rightarrow> failure + int" where
  "itemLoop P [] totalPoints = Inr totalPoints"
| "itemLoop P (item # items) totalPoints =
     (let trimmedDescLength = length (TrimSpace (Description item))
      in if trimmedDescLength mod 3 = 0 then
           (case ParseFloat (Price item) of
              None \<Rightarrow> Inl (InvalidItemPrice (Description item))
            | Some priceFloat \<Rightarrow>
                itemLoop P items
                  (add64 totalPoints (intOfFloat P (Ceil (fmul priceFloat c0_2)))))
         else itemLoop P items totalPoints)"

text \<open>
  The body of \<^verbatim>\<open>scanReceipt\<close> from the parsing of the total to the last rule: the points
  of the receipt, or the failure at which the handler returns.  \<open>receiptDate\<close> is year,
  month and day, \<open>receiptTime\<close> hour and minute.
\<close>

definition tallyPoints :: "platform \<Rightarrow> Receipt \<Rightarrow> failure + int" where
  "tallyPoints P receipt =
     (case ParseFloat (Total receipt) of
        None \<Rightarrow> Inl InvalidTotal
      | Some receiptTotal \<Rightarrow>
     (case parseDate (Date receipt) of
        None \<Rightarrow> Inl InvalidDate
      | Some receiptDate \<Rightarrow>
     (case parseClock (Time receipt) of
        None \<Rightarrow> Inl InvalidTime
      | Some receiptTime \<Rightarrow>
          let totalPoints = 0;
              totalPoints = add64 totalPoints (int (length (retailerAlphanumericChars P receipt)));
              totalPoints = (if feq (Floor receiptTotal) receiptTotal
                             then add64 totalPoints 50 else totalPoints);
              totalPoints = (if feq (Mod receiptTotal c0_25) c0
                             then add64 totalPoints 25 else totalPoints);
              totalPoints = add64 totalPoints (mul64 5 (int (length (Items receipt)) div 2))
          in case itemLoop P (Items receipt) totalPoints of
               Inl e \<Rightarrow> Inl e
             | Inr totalPoints \<Rightarrow>
                 let totalPoints = (if snd (snd receiptDate) mod 2 \<noteq> 0
                                    then add64 totalPoints 6 else totalPoints);
                     totalPoints = (if fst receiptTime = 14 \<and> 0 < snd receiptTime
                                        \<or> 14 < fst receiptTime \<and> fst receiptTime < 16
                                    then add64 totalPoints 10 else totalPoints)
                 in Inr totalPoints)))"

subsection \<open>The two handlers\<close>

text \<open>
  The state of the server: the global map \<^verbatim>\<open>receiptPoints\<close>, and how many UUIDs have
  been drawn.  A response is a status code and the JSON object sent with it.  A handler
  is a function from the state before the request to the response and the state after
  it: the model runs one request at a time, and says nothing about two handlers that
  run at once (the source takes no lock around the map).  \<^verbatim>\<open>uuid.New()\<close> is taken to
  succeed; it panics when the random source fails.
\<close>

record server =
  receiptPoints :: "string \<rightharpoonup> int"
  uuidsDrawn :: nat

datatype body = Message string | Id string | Points int

type_synonym response = "nat \<times> body"

text \<open>
  \<^verbatim>\<open>scanReceipt\<close>.  The request is the receipt that \<^verbatim>\<open>BindJSON\<close> reads from the body, or
  \<open>None\<close> when \<^verbatim>\<open>BindJSON\<close> returns an error.
\<close>

definition scanReceipt :: "platform \<Rightarrow> Receipt option \<Rightarrow> server \<Rightarrow> response \<times> server" where
  "scanReceipt P request \<sigma> =
     (case request of
        None \<Rightarrow> ((400, Message ''Failed to bind the request's JSON to type: Receipt.''), \<sigma>)
      | Some receipt \<Rightarrow>
          (case tallyPoints P receipt of
             Inl e \<Rightarrow> ((400, Message (failureMessage e)), \<sigma>)
           | Inr totalPoints \<Rightarrow>
               let uniqueID = uuidNew P (uuidsDrawn \<sigma>)
               in ((201, Id uniqueID),
                   \<sigma>\<lparr>receiptPoints := (receiptPoints \<sigma>)(uniqueID \<mapsto> totalPoints),
                     uuidsDrawn := Suc (uuidsDrawn \<sigma>)\<rparr>)))"

text \<open>\<^verbatim>\<open>getPoints\<close>, with the path parameter \<^verbatim>\<open>id\<close>.\<close>

definition getPoints :: "string \<Rightarrow> server \<Rightarrow> response \<times> server" where
  "getPoints inputId \<sigma> =
     (case receiptPoints \<sigma> inputId of
        Some points \<Rightarrow> ((200, Points points), \<sigma>)
      | None \<Rightarrow> ((404, Message ''Points not found for that id.''), \<sigma>))"

text \<open>\<^verbatim>\<open>main\<close> makes the map before it serves the first request.\<close>

definition initial :: server where
  "initial = \<lparr>receiptPoints = Map.empty, uuidsDrawn = 0\<rparr>"

subsection \<open>The rules, one by one\<close>

text \<open>
  What each rule of \<^verbatim>\<open>scanReceipt\<close> adds to \<^verbatim>\<open>totalPoints\<close>, as a function of the field of
  the receipt that the rule reads.  The lemma \<open>tallyPoints_sum\<close> below shows that the
  points of a receipt are the sum of these terms, wrapped into the range of \<^verbatim>\<open>int\<close>.
\<close>

definition retailerBonus :: "platform \<Rightarrow> Receipt \<Rightarrow> int" where
  "retailerBonus P receipt = int (length (retailerAlphanumericChars P receipt))"

definition roundDollarBonus :: "string \<Rightarrow> int" where
  "roundDollarBonus s =
     (case ParseFloat s of
        Some receiptTotal \<Rightarrow> if feq (Floor receiptTotal) receiptTotal then 50 else 0
      | None \<Rightarrow> 0)"

definition quarterBonus :: "string \<Rightarrow> int" where
  "quarterBonus s =
     (case ParseFloat s of
        Some receiptTotal \<Rightarrow> if feq (Mod receiptTotal c0_25) c0 then 25 else 0
      | None \<Rightarrow> 0)"

definition itemPairBonus :: "Item list \<Rightarrow> int" where
  "itemPairBonus items = 5 * (int (length items) div 2)"

text \<open>An item whose price is read: the trimmed description has a length divisible by 3.\<close>

definition qualifies :: "Item \<Rightarrow> bool" where
  "qualifies item = (length (TrimSpace (Description item)) mod 3 = 0)"

definition descriptionBonus :: "platform \<Rightarrow> Item \<Rightarrow> int" where
  "descriptionBonus P item =
     (if qualifies item then
        (case ParseFloat (Price item) of
           Some priceFloat \<Rightarrow> intOfFloat P (Ceil (fmul priceFloat c0_2))
         | None \<Rightarrow> 0)
      else 0)"

text \<open>An item at which the loop stops: its price is read and does not parse.\<close>

definition unpriced :: "Item \<Rightarrow> bool" where
  "unpriced item = (qualifies item \<and> ParseFloat (Price item) = None)"

definition oddDayBonus :: "string \<Rightarrow> int" where
  "oddDayBonus s =
     (case parseDate s of
        Some (year, month, day) \<Rightarrow> if day mod 2 \<noteq> 0 then 6 else 0
      | None \<Rightarrow> 0)"

definition afternoonBonus :: "string \<Rightarrow> int" where
  "afternoonBonus s =
     (case parseClock s of
        Some (hour, minute) \<Rightarrow>
          if hour = 14 \<and> 0 < minute \<or> 14 < hour \<and> hour < 16 then 10 else 0
      | None \<Rightarrow> 0)"

subsection \<open>Receipts and a platform for the examples\<close>

text \<open>
  The platform of the examples converts a float that does not fit to the least \<^verbatim>\<open>int\<close>, as
  the amd64 instruction does, numbers its UUIDs, and has empty tables above U+00FF, which
  no example consults.
\<close>

definition examplePlatform :: platform where
  "examplePlatform =
     \<lparr>LetterTable = (\<lambda>r. False), DigitTable = (\<lambda>r. False),
      intOutOfRange = (\<lambda>f. - (2 ^ 63)), uuidNew = (\<lambda>n. replicate (Suc n) CHR ''u'')\<rparr>"

definition targetReceipt :: Receipt where
  "targetReceipt =
     \<lparr>Retailer = ''Target'', Date = ''2022-01-01'', Time = ''13:01'',
      Items =
        [\<lparr>Description = ''Mountain Dew 12PK'', Price = ''6.49''\<rparr>,
         \<lparr>Description = ''Emils Cheese Pizza'', Price = ''12.25''\<rparr>,
         \<lparr>Description = ''Knorr Creamy Chicken'', Price = ''1.26''\<rparr>,
         \<lparr>Description = ''Doritos Nacho Cheese'', Price = ''3.35''\<rparr>,
         \<lparr>Description = ''   Klarbrunn 12-PK 12 FL OZ  '', Price = ''12.00''\<rparr>],
      Total = ''35.35''\<rparr>"

text \<open>
  \<^verbatim>\<open>Pi\<close>, U+00F1 (n with tilde, the bytes C3 B1) and \<^verbatim>\<open>ata\<close>: six characters in seven
  bytes; and \<^verbatim>\<open>Jalape\<close>, U+00F1 and \<^verbatim>\<open>o\<close>: eight characters in nine bytes.
\<close>

definition pinata :: string where
  "pinata = ''Pi'' @ [CHR 0xC3, CHR 0xB1] @ ''ata''"

definition jalapeno :: string where
  "jalapeno = ''Jalape'' @ [CHR 0xC3, CHR 0xB1] @ ''o''"

text \<open>A string of ASCII bytes: every character is one byte.\<close>

definition ascii :: "string \<Rightarrow> bool" where
  "ascii s = (\<forall>c \<in> set s. byte c < 128)"

text \<open>A receipt that earns points by its items only: no retailer, an even day, and so on.\<close>

definition bareReceipt :: "Item list \<Rightarrow> Receipt" where
  "bareReceipt items =
     \<lparr>Retailer = [], Date = ''2022-01-02'', Time = ''13:01'', Items = items,
      Total = ''1.10''\<rparr>"

section \<open>The rounding is that of IEEE 754\<close>

text \<open>\<open>ilog2\<close> is the binary exponent.\<close>

lemma ilog2_bounds:
  assumes "0 < x"
  shows "2 powi ilog2 x \<le> x \<and> x < 2 powi (ilog2 x + 1)"
proof (cases "1 \<le> x")
  case True
  define n where "n = \<lfloor>x\<rfloor>"
  from True have n: "0 < n"
    by (simp add: n_def)
  from bitlen_bounds [OF n] have lo: "2 ^ nat (bitlen n - 1) \<le> n" and hi: "n < 2 ^ nat (bitlen n)"
    by simp_all
  from n have b: "1 \<le> bitlen n"
    by (simp add: bitlen_alt_def)
  have "(2::rat) powi (bitlen n - 1) = 2 ^ nat (bitlen n - 1)"
    using b by (simp add: power_int_def)
  also have "\<dots> = of_int (2 ^ nat (bitlen n - 1))"
    by simp
  also have "\<dots> \<le> of_int n"
    using lo by (simp only: of_int_le_iff)
  also have "\<dots> \<le> x"
    by (simp add: n_def)
  finally have 1: "2 powi (bitlen n - 1) \<le> x" .
  from hi have "n + 1 \<le> 2 ^ nat (bitlen n)"
    by simp
  then have "of_int (n + 1) \<le> (of_int (2 ^ nat (bitlen n)) :: rat)"
    by (simp only: of_int_le_iff)
  moreover have "x < of_int (n + 1)"
    unfolding n_def by linarith
  ultimately have "x < 2 ^ nat (bitlen n)"
    by simp
  also have "\<dots> = (2::rat) powi (bitlen n - 1 + 1)"
    using b by (simp add: power_int_def)
  finally have 2: "x < 2 powi (bitlen n - 1 + 1)" .
  from True 1 2 show ?thesis
    by (simp add: ilog2_def n_def)
next
  case False
  with assms have x: "0 < x" "x < 1"
    by simp_all
  define c where "c = \<lceil>1 / x\<rceil>"
  from x have "1 < 1 / x"
    by simp
  then have c2: "2 \<le> c"
    unfolding c_def by linarith
  then have c1: "0 < c - 1"
    by simp
  define k where "k = bitlen (c - 1)"
  from bitlen_bounds [OF c1] have lo: "2 ^ nat (k - 1) \<le> c - 1" and hi: "c - 1 < 2 ^ nat k"
    by (simp_all add: k_def)
  from c1 have k1: "1 \<le> k"
    by (simp add: k_def bitlen_alt_def)
  have "1 / x \<le> of_int c"
    by (simp add: c_def)
  also from hi have "c \<le> 2 ^ nat k"
    by simp
  then have "(of_int c :: rat) \<le> of_int (2 ^ nat k)"
    by (simp only: of_int_le_iff)
  finally have "1 / x \<le> 2 ^ nat k"
    by simp
  with x have "1 / 2 ^ nat k \<le> x"
    by (simp add: field_simps)
  moreover have "(2::rat) powi (- k) = 1 / 2 ^ nat k"
    using k1 by (simp add: power_int_def field_simps)
  ultimately have 1: "2 powi (- k) \<le> x"
    by simp
  have "of_int (c - 1) < 1 / x"
    unfolding c_def by linarith
  moreover from lo have "(of_int (2 ^ nat (k - 1)) :: rat) \<le> of_int (c - 1)"
    by (simp only: of_int_le_iff)
  ultimately have "2 ^ nat (k - 1) < 1 / x"
    by simp
  with x have "x < 1 / 2 ^ nat (k - 1)"
    by (simp add: field_simps)
  moreover have "(2::rat) powi (- k + 1) = 1 / 2 ^ nat (k - 1)"
  proof -
    have "- k + 1 = - (k - 1)" by simp
    then have "(2::rat) powi (- k + 1) = inverse (2 powi (k - 1))"
      by (simp only: power_int_minus)
    also have "\<dots> = 1 / 2 ^ nat (k - 1)"
      using k1 by (simp add: power_int_def field_simps)
    finally show ?thesis .
  qed
  ultimately have 2: "x < 2 powi (- k + 1)"
    by simp
  from False 1 2 show ?thesis
    by (simp add: ilog2_def c_def k_def)
qed

text \<open>Rounding to the nearest integer moves a number by at most one half.\<close>

lemma round_half_even_near: "\<bar>of_int (round_half_even y) - y\<bar> \<le> 1 / 2"
proof -
  have "of_int \<lfloor>y\<rfloor> \<le> y" "y < of_int \<lfloor>y\<rfloor> + 1"
    by linarith+
  then show ?thesis
    by (auto simp: round_half_even_def Let_def abs_le_iff)
qed

text \<open>
  The double that \<open>round64\<close> gives lies within half a unit in the last place of the
  number rounded, and it is a significand of at most 53 bits at the exponent of the
  number (at the least exponent in the subnormal range).
\<close>

lemma round64_error:
  assumes "round64 x = Finite v"
  shows "\<bar>v - x\<bar> \<le> 2 powi (max (ilog2 \<bar>x\<bar>) (- 1022) - 53)"
proof (cases "x = 0")
  case True
  with assms show ?thesis
    by (simp add: round64_def)
next
  case False
  define q where "q = max (ilog2 \<bar>x\<bar>) (- 1022) - 52"
  define m where "m = round_half_even (\<bar>x\<bar> / 2 powi q)"
  have p: "(0::rat) < 2 powi q"
    by simp
  from assms False have v: "v = (if x < 0 then - (of_int m * 2 powi q) else of_int m * 2 powi q)"
    by (simp add: round64_def Let_def q_def m_def split: if_splits)
  have "\<bar>of_int m - \<bar>x\<bar> / 2 powi q\<bar> \<le> 1 / 2"
    unfolding m_def by (rule round_half_even_near)
  then have "\<bar>of_int m - \<bar>x\<bar> / 2 powi q\<bar> * 2 powi q \<le> 1 / 2 * 2 powi q"
    using p by (simp only: mult_le_cancel_right_pos)
  moreover have "\<bar>of_int m - \<bar>x\<bar> / 2 powi q\<bar> * 2 powi q = \<bar>of_int m * 2 powi q - \<bar>x\<bar>\<bar>"
  proof -
    have "\<bar>of_int m - \<bar>x\<bar> / 2 powi q\<bar> * 2 powi q
            = \<bar>(of_int m - \<bar>x\<bar> / 2 powi q) * 2 powi q\<bar>"
      using p by (simp add: abs_mult)
    also have "(of_int m - \<bar>x\<bar> / 2 powi q) * 2 powi q = of_int m * 2 powi q - \<bar>x\<bar>"
      using p by (simp add: field_simps)
    finally show ?thesis .
  qed
  moreover have "1 / 2 * (2::rat) powi q = 2 powi (q - 1)"
    by (simp add: power_int_diff)
  ultimately have "\<bar>of_int m * 2 powi q - \<bar>x\<bar>\<bar> \<le> 2 powi (q - 1)"
    by simp
  moreover have "\<bar>v - x\<bar> = \<bar>of_int m * 2 powi q - \<bar>x\<bar>\<bar>"
    unfolding v by (cases "x < 0") simp_all
  moreover have "q - 1 = max (ilog2 \<bar>x\<bar>) (- 1022) - 53"
    by (simp add: q_def)
  ultimately show ?thesis
    by simp
qed

lemma round_half_even_range:
  assumes "0 \<le> y" and "y < of_int b"
  shows "0 \<le> round_half_even y \<and> round_half_even y \<le> b"
proof -
  from assms have "0 \<le> \<lfloor>y\<rfloor>" and "\<lfloor>y\<rfloor> < b"
    by (simp_all add: floor_less_iff)
  then show ?thesis
    by (auto simp: round_half_even_def Let_def)
qed

lemma round64_mantissa:
  assumes "round64 x = Finite v"
  shows "\<exists>m. \<bar>v\<bar> = of_int m * 2 powi (max (ilog2 \<bar>x\<bar>) (- 1022) - 52)
             \<and> 0 \<le> m \<and> m \<le> 2 ^ 53"
proof (cases "x = 0")
  case True
  with assms have "v = 0"
    by (simp add: round64_def)
  then show ?thesis
    by (intro exI [of _ 0]) simp
next
  case False
  define q where "q = max (ilog2 \<bar>x\<bar>) (- 1022) - 52"
  define m where "m = round_half_even (\<bar>x\<bar> / 2 powi q)"
  have p: "(0::rat) < 2 powi q"
    by simp
  from assms False have v: "v = (if x < 0 then - (of_int m * 2 powi q) else of_int m * 2 powi q)"
    by (simp add: round64_def Let_def q_def m_def split: if_splits)
  from False have "0 < \<bar>x\<bar>"
    by simp
  from ilog2_bounds [OF this] have "\<bar>x\<bar> < 2 powi (ilog2 \<bar>x\<bar> + 1)"
    by simp
  also have "(2::rat) powi (ilog2 \<bar>x\<bar> + 1) \<le> 2 powi (q + 53)"
    by (rule power_int_increasing) (simp_all add: q_def)
  also have "(2::rat) powi (q + 53) = 2 powi q * 2 ^ 53"
    by (simp add: power_int_add)
  finally have "\<bar>x\<bar> / 2 powi q < 2 ^ 53"
    using p by (simp add: field_simps)
  then have "\<bar>x\<bar> / 2 powi q < of_int (2 ^ 53)"
    by simp
  moreover have "0 \<le> \<bar>x\<bar> / 2 powi q"
    by simp
  ultimately have r: "0 \<le> m \<and> m \<le> 2 ^ 53"
    unfolding m_def by (rule round_half_even_range [rotated])
  then have "0 \<le> (of_int m :: rat) * 2 powi q"
    by simp
  with v have "\<bar>v\<bar> = of_int m * 2 powi q"
    by (simp split: if_splits)
  with r show ?thesis
    unfolding q_def by blast
qed

section \<open>Evaluation and arithmetic lemmas\<close>

text \<open>Floor and ceiling of a fraction of two numerals, for the simplifier.\<close>

lemma floor_rat_numeral: "\<lfloor>numeral a / numeral b :: rat\<rfloor> = numeral a div numeral b"
  using floor_divide_of_int_eq [of "numeral a" "numeral b", where ?'a = rat] by simp

lemma ceiling_rat_numeral: "\<lceil>numeral a / numeral b :: rat\<rceil> = - ((- numeral a) div numeral b)"
  using floor_divide_of_int_eq [of "- numeral a" "numeral b", where ?'a = rat]
  by (simp add: ceiling_def)

text \<open>The equations that evaluate the library functions on a literal.\<close>

lemmas float_eval = round64_def ilog2_def round_half_even_def compute_bitlen Let_def
  floor_rat_numeral ceiling_rat_numeral

lemmas scan_eval = ParseFloat_def special_def specialInf_def readFloat_def expPart_def
  underscoreOK_def isDigit_def digitVal_def byte_def lower_def isHexLetter_def

lemmas clock_eval = parseClock_def parseDate_def getnum_def isDigit_def digitVal_def byte_def
  daysIn_def isLeap_def

lemmas utf8_eval = runes.simps DecodeRune_def DecodeLastRune_def leadByte_def contByte_def
  RuneStart_def RuneError_def IsSpace_def byte_def asciiSpace_def TrimRightSpace_def
  TrimLeftSpace.simps lastIndexNotSpace.simps Let_def

text \<open>Wrapping is idempotent and absorbs a wrap inside a sum.\<close>

lemma wrap64_idem [simp]: "wrap64 (wrap64 n) = wrap64 n"
  by (simp add: wrap64_def mod_simps)

lemma wrap64_add_left: "wrap64 (wrap64 a + b) = wrap64 (a + b)"
proof -
  have "(wrap64 a + b + 2 ^ 63) mod 2 ^ 64 = ((a + 2 ^ 63) mod 2 ^ 64 + b) mod 2 ^ 64"
    by (simp add: wrap64_def)
  also have "\<dots> = (a + 2 ^ 63 + b) mod 2 ^ 64"
    by (rule mod_add_left_eq)
  also have "a + 2 ^ 63 + b = a + b + 2 ^ 63"
    by simp
  finally show ?thesis
    by (simp add: wrap64_def)
qed

lemma wrap64_add_right: "wrap64 (a + wrap64 b) = wrap64 (a + b)"
  using wrap64_add_left [of b a] by (simp add: add.commute)

lemma wrap64_small: "- (2 ^ 63) \<le> n \<Longrightarrow> n < 2 ^ 63 \<Longrightarrow> wrap64 n = n"
  by (simp add: wrap64_def)

text \<open>
  The loop over the items stops at the first item whose price is read and does not parse;
  without such an item it adds the bonus of each item.
\<close>

lemma itemLoop_find:
  "itemLoop P items tp =
     (case find unpriced items of
        Some item \<Rightarrow> Inl (InvalidItemPrice (Description item))
      | None \<Rightarrow> Inr (wrap64 (tp + sum_list (map (descriptionBonus P) items))))"
  if "wrap64 tp = tp"
  using that
proof (induction items arbitrary: tp)
  case Nil
  then show ?case by simp
next
  case (Cons item items)
  show ?case
  proof (cases "qualifies item")
    case False
    then have "\<not> unpriced item" and "descriptionBonus P item = 0"
      and "itemLoop P (item # items) tp = itemLoop P items tp"
      by (simp_all add: qualifies_def unpriced_def descriptionBonus_def)
    then show ?thesis
      unfolding \<open>itemLoop P (item # items) tp = itemLoop P items tp\<close>
        Cons.IH [OF Cons.prems]
      by (simp cong: option.case_cong)
  next
    case True
    show ?thesis
    proof (cases "ParseFloat (Price item)")
      case None
      with True have "unpriced item"
        and "itemLoop P (item # items) tp = Inl (InvalidItemPrice (Description item))"
        by (simp_all add: qualifies_def unpriced_def)
      then show ?thesis
        unfolding \<open>itemLoop P (item # items) tp = Inl (InvalidItemPrice (Description item))\<close>
        by simp
    next
      case (Some priceFloat)
      let ?b = "intOfFloat P (Ceil (fmul priceFloat c0_2))"
      from True Some have "\<not> unpriced item" and b: "descriptionBonus P item = ?b"
        and l: "itemLoop P (item # items) tp = itemLoop P items (add64 tp ?b)"
        by (simp_all add: qualifies_def unpriced_def descriptionBonus_def)
      have w: "wrap64 (add64 tp ?b) = add64 tp ?b"
        by (simp add: add64_def)
      from \<open>\<not> unpriced item\<close> show ?thesis
        unfolding l Cons.IH [OF w]
        by (simp add: b add64_def wrap64_add_left add.assoc cong: option.case_cong)
    qed
  qed
qed

text \<open>
  \<^verbatim>\<open>scanReceipt\<close> in one equation: the first check that fails decides the failure, in the
  order total, date, time, items; and the points of a receipt that passes are the sum of
  the seven rules, wrapped into the range of \<^verbatim>\<open>int\<close>.
\<close>

lemma tallyPoints_cases:
  "tallyPoints P receipt =
     (if ParseFloat (Total receipt) = None then Inl InvalidTotal
      else if parseDate (Date receipt) = None then Inl InvalidDate
      else if parseClock (Time receipt) = None then Inl InvalidTime
      else
        (case find unpriced (Items receipt) of
           Some item \<Rightarrow> Inl (InvalidItemPrice (Description item))
         | None \<Rightarrow>
             Inr (wrap64 (retailerBonus P receipt + roundDollarBonus (Total receipt)
                   + quarterBonus (Total receipt) + itemPairBonus (Items receipt)
                   + sum_list (map (descriptionBonus P) (Items receipt))
                   + oddDayBonus (Date receipt) + afternoonBonus (Time receipt)))))"
proof (cases "ParseFloat (Total receipt) = None \<or> parseDate (Date receipt) = None
                \<or> parseClock (Time receipt) = None")
  case True
  then show ?thesis
    by (auto simp: tallyPoints_def split: option.splits)
next
  case False
  then obtain t y mo dd h m where
    t: "ParseFloat (Total receipt) = Some t" and
    d: "parseDate (Date receipt) = Some (y, mo, dd)" and
    c: "parseClock (Time receipt) = Some (h, m)"
    by auto
  define tp0 where
    "tp0 = wrap64 (retailerBonus P receipt + roundDollarBonus (Total receipt)
                   + quarterBonus (Total receipt) + itemPairBonus (Items receipt))"
  have pre: "add64
               (if feq (Mod t c0_25) c0
                then add64 (if feq (Floor t) t
                            then add64 (add64 0 (int (length (retailerAlphanumericChars P receipt)))) 50
                            else add64 0 (int (length (retailerAlphanumericChars P receipt)))) 25
                else (if feq (Floor t) t
                      then add64 (add64 0 (int (length (retailerAlphanumericChars P receipt)))) 50
                      else add64 0 (int (length (retailerAlphanumericChars P receipt)))))
               (mul64 5 (int (length (Items receipt)) div 2)) = tp0"
    by (cases "feq (Floor t) t"; cases "feq (Mod t c0_25) c0")
      (simp_all add: tp0_def t retailerBonus_def roundDollarBonus_def quarterBonus_def
        itemPairBonus_def add64_def mul64_def wrap64_add_left wrap64_add_right)
  define isOdd where "isOdd \<longleftrightarrow> dd mod 2 \<noteq> 0"
  define isAfternoon where "isAfternoon \<longleftrightarrow> h = 14 \<and> 0 < m \<or> 14 < h \<and> h < 16"
  have tally: "tallyPoints P receipt =
      (case itemLoop P (Items receipt) tp0 of
         Inl e \<Rightarrow> Inl e
       | Inr tp \<Rightarrow>
           Inr (let tp1 = (if isOdd then add64 tp 6 else tp)
                in if isAfternoon then add64 tp1 10 else tp1))"
    unfolding pre [symmetric] isOdd_def isAfternoon_def
    by (simp add: tallyPoints_def t d c Let_def cong: sum.case_cong)
  have o: "oddDayBonus (Date receipt) = (if isOdd then 6 else 0)"
    by (simp add: oddDayBonus_def d isOdd_def)
  have a: "afternoonBonus (Time receipt) = (if isAfternoon then 10 else 0)"
    by (simp add: afternoonBonus_def c isAfternoon_def)
  have w: "wrap64 tp0 = tp0"
    by (simp add: tp0_def)
  show ?thesis
  proof (cases "find unpriced (Items receipt)")
    case (Some item)
    then show ?thesis
      unfolding tally itemLoop_find [OF w] by (simp add: t d c)
  next
    case None
    then show ?thesis
      unfolding tally itemLoop_find [OF w] o a
      by (cases isOdd; cases isAfternoon)
        (simp_all add: t d c tp0_def add64_def wrap64_add_left Let_def)
  qed
qed

lemma tallyPoints_sum:
  assumes "tallyPoints P receipt = Inr points"
  shows "points =
           wrap64 (retailerBonus P receipt + roundDollarBonus (Total receipt)
                   + quarterBonus (Total receipt) + itemPairBonus (Items receipt)
                   + sum_list (map (descriptionBonus P) (Items receipt))
                   + oddDayBonus (Date receipt) + afternoonBonus (Time receipt))"
  using assms unfolding tallyPoints_cases [of P receipt]
  by (simp split: if_splits option.splits)

lemma tallyPoints_parsed:
  assumes "tallyPoints P receipt = Inr points"
  shows "ParseFloat (Total receipt) \<noteq> None" and "parseDate (Date receipt) \<noteq> None"
    and "parseClock (Time receipt) \<noteq> None" and "find unpriced (Items receipt) = None"
  using assms unfolding tallyPoints_cases [of P receipt]
  by (simp_all split: if_splits option.splits)

text \<open>What \<^verbatim>\<open>time.Parse\<close> accepts is a time of the day, and a day of the month.\<close>

lemma parseClock_range: "parseClock s = Some (hour, minute) \<Longrightarrow> hour < 24 \<and> minute < 60"
  by (auto simp: parseClock_def split: option.splits list.splits if_splits)

lemma parseDate_range:
  "parseDate s = Some (year, month, day) \<Longrightarrow> 1 \<le> month \<and> month \<le> 12 \<and> 1 \<le> day \<and> day \<le> 31"
  by (auto simp: parseDate_def daysIn_def Let_def split: option.splits list.splits if_splits)

section \<open>The receipt of the end-to-end scenario, evaluated\<close>

lemma ParseFloat_35_35: "ParseFloat ''35.35'' = Some (Finite (4975070213360845 / 140737488355328))"
  by (simp add: scan_eval float_eval)

lemma ParseFloat_12_25: "ParseFloat ''12.25'' = Some (Finite (49 / 4))"
  by (simp add: scan_eval float_eval)

lemma ParseFloat_12_00: "ParseFloat ''12.00'' = Some (Finite 12)"
  by (simp add: scan_eval float_eval)

lemma c0_2_val: "c0_2 = Finite (3602879701896397 / 18014398509481984)"
  by (simp add: c0_2_def float_eval)

lemma c0_25_val: "c0_25 = Finite (1 / 4)"
  by (simp add: c0_25_def float_eval)

lemma points_12_25: "intOfFloat P (Ceil (fmul (Finite (49 / 4)) c0_2)) = 3"
  by (simp add: c0_2_val intOfFloat_def float_eval)

lemma points_12_00: "intOfFloat P (Ceil (fmul (Finite 12) c0_2)) = 3"
  by (simp add: c0_2_val intOfFloat_def float_eval)

lemma target_lengths:
  "length (TrimSpace ''Mountain Dew 12PK'') = 17"
  "length (TrimSpace ''Emils Cheese Pizza'') = 18"
  "length (TrimSpace ''Knorr Creamy Chicken'') = 20"
  "length (TrimSpace ''Doritos Nacho Cheese'') = 20"
  "length (TrimSpace ''   Klarbrunn 12-PK 12 FL OZ  '') = 24"
  by (simp_all add: byte_def asciiSpace_def)

lemma target_retailer: "retailerAlphanumericChars P targetReceipt = [84, 97, 114, 103, 101, 116]"
  by (simp add: retailerAlphanumericChars_def targetReceipt_def utf8_eval IsLetter_def IsDigit_def latin1Letter_def)

lemma target_date: "parseDate ''2022-01-01'' = Some (2022, 1, 1)"
  by (simp add: clock_eval)

lemma target_time: "parseClock ''13:01'' = Some (13, 1)"
  by (simp add: clock_eval)


lemma target_fields:
  "Total targetReceipt = ''35.35''" "Date targetReceipt = ''2022-01-01''"
  "Time targetReceipt = ''13:01''" "length (Items targetReceipt) = 5"
  by (simp_all add: targetReceipt_def)

lemma target_items: "itemLoop P (Items targetReceipt) tp = Inr (add64 (add64 tp 3) 3)"
  by (simp add: targetReceipt_def byte_def asciiSpace_def ParseFloat_12_25 ParseFloat_12_00
      points_12_25 points_12_00)

lemma target_total_tests:
  "\<not> feq (Floor (Finite (4975070213360845 / 140737488355328))) (Finite (4975070213360845 / 140737488355328))"
  "\<not> feq (Mod (Finite (4975070213360845 / 140737488355328)) c0_25) c0"
  by (simp_all add: c0_25_val c0_def floor_rat_numeral ceiling_rat_numeral)


lemma target_tally: "tallyPoints P targetReceipt = Inr 28"
  unfolding tallyPoints_def target_retailer target_fields target_items
  by (simp only: ParseFloat_35_35 target_date target_time option.case Let_def
        target_total_tests if_False sum.case fst_conv snd_conv)
     (simp add: add64_def mul64_def wrap64_def)

lemma target_items_bonus:
  "sum_list (map (descriptionBonus P) (Items targetReceipt)) = 6"
  "find unpriced (Items targetReceipt) = None"
  "itemPairBonus (Items targetReceipt) = 10"
  by (simp_all add: targetReceipt_def descriptionBonus_def unpriced_def qualifies_def
      itemPairBonus_def byte_def asciiSpace_def ParseFloat_12_25 ParseFloat_12_00
      points_12_25 points_12_00)

lemma target_retailer_bonus:
  "retailerBonus P (targetReceipt\<lparr>Date := d, Time := c, Total := tot\<rparr>) = 6"
  using target_retailer [of P]
  by (simp add: retailerBonus_def retailerAlphanumericChars_def)

text \<open>
  The receipt of the scenario with another date, time or total: the retailer gives 6, the
  five items 10, the two items that qualify 3 each.
\<close>

lemma target_variant:
  assumes "ParseFloat tot \<noteq> None" and "parseDate d \<noteq> None" and "parseClock c \<noteq> None"
  shows "tallyPoints P (targetReceipt\<lparr>Date := d, Time := c, Total := tot\<rparr>) =
           Inr (wrap64 (6 + roundDollarBonus tot + quarterBonus tot + 10 + 6
                        + oddDayBonus d + afternoonBonus c))"
  unfolding tallyPoints_cases target_retailer_bonus
  using assms by (simp add: target_items_bonus)

lemma bonuses_35_35: "roundDollarBonus ''35.35'' = 0" "quarterBonus ''35.35'' = 0"
  by (simp_all add: roundDollarBonus_def quarterBonus_def ParseFloat_35_35 c0_25_val c0_def
      floor_rat_numeral ceiling_rat_numeral)

lemma bonus_2022_01_01: "oddDayBonus ''2022-01-01'' = 6"
  by (simp add: oddDayBonus_def target_date)

lemma afternoon_examples:
  "afternoonBonus ''14:00'' = 0" "afternoonBonus ''14:01'' = 10"
  "afternoonBonus ''15:59'' = 10" "afternoonBonus ''16:00'' = 0"
  "parseClock ''14:00'' = Some (14, 0)" "parseClock ''14:01'' = Some (14, 1)"
  "parseClock ''15:59'' = Some (15, 59)" "parseClock ''16:00'' = Some (16, 0)"
  by (simp_all add: afternoonBonus_def clock_eval)

lemma find_unpriced_Some:
  "find unpriced items = Some item \<Longrightarrow> item \<in> set items \<and> unpriced item"
  by (auto simp: find_Some_iff)

lemma find_unpriced_None:
  "find unpriced items = None \<longleftrightarrow> (\<forall>item \<in> set items. \<not> unpriced item)"
  by (auto simp: find_None_iff)

lemma ParseFloat_not_numbers:
  "ParseFloat ''abc'' = None" "ParseFloat ''free'' = None" "ParseFloat [] = None"
  "ParseFloat ''twelve'' = None"
  by (simp_all add: scan_eval float_eval)

lemma dates_and_times_refused:
  "parseDate ''2022-13-01'' = None" "parseDate ''01/01/2022'' = None"
  "parseClock ''25:00'' = None" "parseClock ''1pm'' = None"
  by (simp_all add: clock_eval)

lemma bare_bonuses:
  "ParseFloat ''1.10'' \<noteq> None" "roundDollarBonus ''1.10'' = 0" "quarterBonus ''1.10'' = 0"
  "parseDate ''2022-01-02'' \<noteq> None" "oddDayBonus ''2022-01-02'' = 0"
  "parseClock ''13:01'' \<noteq> None" "afternoonBonus ''13:01'' = 0"
  "retailerBonus P (bareReceipt items) = 0"
  by (simp_all add: roundDollarBonus_def quarterBonus_def oddDayBonus_def afternoonBonus_def
      retailerBonus_def retailerAlphanumericChars_def bareReceipt_def runes.simps
      scan_eval float_eval clock_eval c0_25_def c0_def)

lemma bare_tally:
  "tallyPoints P (bareReceipt items) =
     (case find unpriced items of
        Some item \<Rightarrow> Inl (InvalidItemPrice (Description item))
      | None \<Rightarrow> Inr (wrap64 (itemPairBonus items + sum_list (map (descriptionBonus P) items))))"
proof -
  have "Total (bareReceipt items) = ''1.10''" "Date (bareReceipt items) = ''2022-01-02''"
    "Time (bareReceipt items) = ''13:01''" "Items (bareReceipt items) = items"
    by (simp_all add: bareReceipt_def)
  then show ?thesis
    unfolding tallyPoints_cases by (simp add: bare_bonuses cong: option.case_cong)
qed

lemma ParseFloat_totals:
  "ParseFloat ''100.00'' = Some (Finite 100)"
  "ParseFloat ''10.10'' = Some (Finite (5685794529555251 / 562949953421312))"
  "ParseFloat ''-5.00'' = Some (Finite (- 5))"
  "ParseFloat ''-1000.00'' = Some (Finite (- 1000))"
  "ParseFloat ''5.00'' = Some (Finite 5)"
  by (simp_all add: scan_eval float_eval)

lemma total_bonus_examples:
  "roundDollarBonus ''100.00'' = 50" "quarterBonus ''100.00'' = 25"
  "roundDollarBonus ''10.10'' = 0" "quarterBonus ''10.10'' = 0"
  "roundDollarBonus ''-5.00'' = 50" "quarterBonus ''-5.00'' = 25"
  by (simp_all add: roundDollarBonus_def quarterBonus_def ParseFloat_totals c0_25_val c0_def
      floor_rat_numeral ceiling_rat_numeral)

lemma floor_half: "\<lfloor>real n / 2\<rfloor> = int n div 2"
  using floor_divide_of_nat_eq [of n 2, where ?'a = real] by simp

text \<open>
  On a description of ASCII bytes \<^verbatim>\<open>TrimSpace\<close> drops the ASCII spaces at both ends, and
  the number of bytes of the result is its number of characters.
\<close>

lemma runes_ascii: "ascii s \<Longrightarrow> runes s = map byte s"
proof (induction s)
  case Nil
  show ?case by (simp add: runes.simps)
next
  case (Cons c s)
  then have "DecodeRune (c # s) = (byte c, 1)" and "ascii s"
    by (simp_all add: DecodeRune_def ascii_def)
  with Cons.IH show ?case
    by (subst runes.simps) simp
qed

lemma trimTail_ascii: "ascii r \<Longrightarrow> trimTail r = rev (dropWhile asciiSpace r)"
  by (induction r) (auto simp: ascii_def)

lemma TrimSpace_ascii:
  "ascii s \<Longrightarrow> TrimSpace s = rev (dropWhile asciiSpace (rev (dropWhile asciiSpace s)))"
proof (induction s)
  case Nil
  show ?case by simp
next
  case (Cons c s)
  then have "ascii s" and "byte c < 128"
    by (simp_all add: ascii_def)
  show ?case
  proof (cases "asciiSpace c")
    case True
    with Cons.IH \<open>ascii s\<close> \<open>byte c < 128\<close> show ?thesis
      by simp
  next
    case False
    from Cons.prems have "ascii (rev (c # s))"
      by (simp add: ascii_def)
    from trimTail_ascii [OF this] False \<open>byte c < 128\<close> show ?thesis
      by simp
  qed
qed

lemma ascii_description_length:
  assumes "ascii s"
  shows "length (runes (TrimSpace s)) = length (TrimSpace s)"
proof -
  have "set (TrimSpace s) \<subseteq> set s"
    unfolding TrimSpace_ascii [OF assms]
    by (auto dest!: set_dropWhileD)
  with assms have "ascii (TrimSpace s)"
    by (auto simp: ascii_def)
  then show ?thesis
    by (simp add: runes_ascii)
qed

lemma negative_price: "intOfFloat P (Ceil (fmul (Finite (- 1000)) c0_2)) = - 200"
  by (simp add: c0_2_val intOfFloat_def float_eval)

lemma five_dollars: "intOfFloat P (Ceil (fmul (Finite 5) c0_2)) = 1"
  by (simp add: c0_2_val intOfFloat_def float_eval)

lemma negative_item:
  "descriptionBonus P \<lparr>Description = ''abc'', Price = ''-1000.00''\<rparr> = - 200"
  "\<not> unpriced \<lparr>Description = ''abc'', Price = ''-1000.00''\<rparr>"
  by (simp_all add: descriptionBonus_def unpriced_def qualifies_def byte_def asciiSpace_def
      ParseFloat_totals negative_price)

lemma n_tilde_lengths:
  "length (TrimSpace pinata) = 7" "length (runes (TrimSpace pinata)) = 6"
  "length (TrimSpace jalapeno) = 9" "length (runes (TrimSpace jalapeno)) = 8"
  "length (TrimSpace ''Pinata'') = 6" "length (runes (TrimSpace ''Pinata'')) = 6"
  "TrimSpace ''   '' = []"
  by (simp_all add: pinata_def jalapeno_def byte_def asciiSpace_def runes.simps
      DecodeRune_def leadByte_def contByte_def)

lemma n_tilde_tally:
  "tallyPoints P (bareReceipt [\<lparr>Description = pinata, Price = ''5.00''\<rparr>]) = Inr 0"
  "tallyPoints P (bareReceipt [\<lparr>Description = ''Pinata'', Price = ''5.00''\<rparr>]) = Inr 1"
  "tallyPoints P (bareReceipt [\<lparr>Description = jalapeno, Price = ''5.00''\<rparr>]) = Inr 1"
  by (simp_all add: bare_tally unpriced_def qualifies_def descriptionBonus_def itemPairBonus_def
      ParseFloat_totals five_dollars wrap64_def byte_def asciiSpace_def pinata_def jalapeno_def)

section \<open>What the handler does with a field that does not parse\<close>

text \<open>
  In this section an item qualifies as the code has it: the number of bytes of its trimmed
  description is divisible by 3.  On a description of ASCII bytes that is the number of
  characters; on the others the two differ, and the examples at the end of the section
  show what the handler then does with a price that does not parse.
\<close>

lemma qualifies_ascii:
  "ascii (Description item) \<Longrightarrow>
     qualifies item \<longleftrightarrow> length (runes (TrimSpace (Description item))) mod 3 = 0"
  by (simp add: qualifies_def ascii_description_length)

text \<open>
  A receipt with a total, a date or a time that does not parse, or with an item that
  qualifies and whose price does not parse, is not scored: the handler answers 400 with
  the message of a failure that the receipt has, and returns the state as it was.
\<close>

lemma abort_when_unparsed:
  assumes "ParseFloat (Total receipt) = None \<or> parseDate (Date receipt) = None
           \<or> parseClock (Time receipt) = None
           \<or> (\<exists>item \<in> set (Items receipt). qualifies item \<and> ParseFloat (Price item) = None)"
  shows "\<exists>e. scanReceipt P (Some receipt) \<sigma> = ((400, Message (failureMessage e)), \<sigma>)
             \<and> (case e of
                   InvalidTotal \<Rightarrow> ParseFloat (Total receipt) = None
                 | InvalidDate \<Rightarrow> parseDate (Date receipt) = None
                 | InvalidTime \<Rightarrow> parseClock (Time receipt) = None
                 | InvalidItemPrice description \<Rightarrow>
                     \<exists>item \<in> set (Items receipt).
                       qualifies item \<and> ParseFloat (Price item) = None
                       \<and> Description item = description)"
proof (cases "ParseFloat (Total receipt) = None")
  case True
  then have "tallyPoints P receipt = Inl InvalidTotal"
    by (simp add: tallyPoints_cases)
  with True show ?thesis
    by (intro exI [of _ InvalidTotal]) (simp add: scanReceipt_def)
next
  case total: False
  show ?thesis
  proof (cases "parseDate (Date receipt) = None")
    case True
    with total have "tallyPoints P receipt = Inl InvalidDate"
      by (simp add: tallyPoints_cases)
    with True show ?thesis
      by (intro exI [of _ InvalidDate]) (simp add: scanReceipt_def)
  next
    case date: False
    show ?thesis
    proof (cases "parseClock (Time receipt) = None")
      case True
      with total date have "tallyPoints P receipt = Inl InvalidTime"
        by (simp add: tallyPoints_cases)
      with True show ?thesis
        by (intro exI [of _ InvalidTime]) (simp add: scanReceipt_def)
    next
      case time: False
      with total date assms have "\<exists>item \<in> set (Items receipt). unpriced item"
        by (auto simp: unpriced_def)
      then obtain item where f: "find unpriced (Items receipt) = Some item"
        using find_unpriced_None [of "Items receipt"]
        by (cases "find unpriced (Items receipt)") auto
      with total date time
      have "tallyPoints P receipt = Inl (InvalidItemPrice (Description item))"
        by (simp add: tallyPoints_cases)
      moreover from find_unpriced_Some [OF f]
      have "item \<in> set (Items receipt)" and "qualifies item"
        and "ParseFloat (Price item) = None"
        by (simp_all add: unpriced_def)
      ultimately show ?thesis
        by (intro exI [of _ "InvalidItemPrice (Description item)"])
          (auto simp: scanReceipt_def)
    qed
  qed
qed

lemma abort_when_unparsed_example:
  "ParseFloat (Total (targetReceipt\<lparr>Total := ''twelve''\<rparr>)) = None
   \<and> scanReceipt examplePlatform (Some (targetReceipt\<lparr>Total := ''twelve''\<rparr>)) initial =
       ((400, Message ''Failed to parse receipt total to float.''), initial)"
proof -
  have h: "ParseFloat (Total (targetReceipt\<lparr>Total := ''twelve''\<rparr>)) = None"
    by (simp add: ParseFloat_not_numbers)
  from abort_when_unparsed [of "targetReceipt\<lparr>Total := ''twelve''\<rparr>" examplePlatform initial]
  obtain e where
    s: "scanReceipt examplePlatform (Some (targetReceipt\<lparr>Total := ''twelve''\<rparr>)) initial =
          ((400, Message (failureMessage e)), initial)"
    and e: "case e of
              InvalidTotal \<Rightarrow> ParseFloat (Total (targetReceipt\<lparr>Total := ''twelve''\<rparr>)) = None
            | InvalidDate \<Rightarrow> parseDate (Date (targetReceipt\<lparr>Total := ''twelve''\<rparr>)) = None
            | InvalidTime \<Rightarrow> parseClock (Time (targetReceipt\<lparr>Total := ''twelve''\<rparr>)) = None
            | InvalidItemPrice description \<Rightarrow>
                     \<exists>item \<in> set (Items (targetReceipt\<lparr>Total := ''twelve''\<rparr>)).
                       qualifies item \<and> ParseFloat (Price item) = None
                       \<and> Description item = description"
    using h by blast
  have "e = InvalidTotal"
    using e
    by (cases e)
      (simp_all add: targetReceipt_def target_date target_time qualifies_def byte_def
        asciiSpace_def ParseFloat_12_25 ParseFloat_12_00)
  with s h show ?thesis
    by simp
qed

text \<open>
  The checks run in the order total, date, time, items, each with its own failure and
  message; the failure of the items is the first item that qualifies and whose price does
  not parse, and the price of an item that does not qualify is never read.
\<close>

lemma checks_in_order:
  "(ParseFloat (Total receipt) = None \<longrightarrow> tallyPoints P receipt = Inl InvalidTotal)
   \<and> (ParseFloat (Total receipt) \<noteq> None \<and> parseDate (Date receipt) = None \<longrightarrow>
        tallyPoints P receipt = Inl InvalidDate)
   \<and> (ParseFloat (Total receipt) \<noteq> None \<and> parseDate (Date receipt) \<noteq> None
        \<and> parseClock (Time receipt) = None \<longrightarrow>
        tallyPoints P receipt = Inl InvalidTime)
   \<and> (ParseFloat (Total receipt) \<noteq> None \<and> parseDate (Date receipt) \<noteq> None
        \<and> parseClock (Time receipt) \<noteq> None \<longrightarrow>
        (case find (\<lambda>item. qualifies item \<and> ParseFloat (Price item) = None) (Items receipt) of
           Some item \<Rightarrow> tallyPoints P receipt = Inl (InvalidItemPrice (Description item))
         | None \<Rightarrow> \<exists>points. tallyPoints P receipt = Inr points))
   \<and> (ParseFloat (Total receipt) \<noteq> None \<and> parseDate (Date receipt) \<noteq> None
        \<and> parseClock (Time receipt) \<noteq> None
        \<and> (\<forall>item \<in> set (Items receipt). \<not> qualifies item) \<longrightarrow>
        (\<exists>points. tallyPoints P receipt = Inr points))
   \<and> (\<forall>e. tallyPoints P receipt = Inl e \<longrightarrow>
          scanReceipt P (Some receipt) \<sigma> = ((400, Message (failureMessage e)), \<sigma>))
   \<and> distinct [failureMessage InvalidTotal, failureMessage InvalidDate,
                failureMessage InvalidTime, failureMessage (InvalidItemPrice description)]"
proof -
  have u: "(\<lambda>item. qualifies item \<and> ParseFloat (Price item) = None) = unpriced"
    by (simp add: unpriced_def fun_eq_iff)
  have "\<forall>item \<in> set (Items receipt). \<not> qualifies item \<Longrightarrow>
          find unpriced (Items receipt) = None"
    by (simp add: find_unpriced_None unpriced_def)
  then show ?thesis
    unfolding u
    by (auto simp: tallyPoints_cases scanReceipt_def split: option.splits)
qed

lemma checks_in_order_example:
  "tallyPoints examplePlatform
     (targetReceipt\<lparr>Date := ''01/01/2022'', Time := ''1pm'', Total := ''twelve''\<rparr>)
     = Inl InvalidTotal
   \<and> tallyPoints examplePlatform (targetReceipt\<lparr>Date := ''01/01/2022'', Time := ''1pm''\<rparr>)
     = Inl InvalidDate
   \<and> tallyPoints examplePlatform (targetReceipt\<lparr>Time := ''1pm''\<rparr>) = Inl InvalidTime
   \<and> tallyPoints examplePlatform
       (bareReceipt [\<lparr>Description = ''ab'', Price = ''free''\<rparr>,
                     \<lparr>Description = ''abc'', Price = ''free''\<rparr>,
                     \<lparr>Description = ''abcdef'', Price = ''twelve''\<rparr>])
     = Inl (InvalidItemPrice ''abc'')
   \<and> (\<exists>points. tallyPoints examplePlatform
                  (bareReceipt [\<lparr>Description = ''ab'', Price = ''free''\<rparr>]) = Inr points)"
proof -
  let ?r1 = "targetReceipt\<lparr>Date := ''01/01/2022'', Time := ''1pm'', Total := ''twelve''\<rparr>"
  let ?r2 = "targetReceipt\<lparr>Date := ''01/01/2022'', Time := ''1pm''\<rparr>"
  let ?r3 = "targetReceipt\<lparr>Time := ''1pm''\<rparr>"
  let ?r4 = "bareReceipt [\<lparr>Description = ''ab'', Price = ''free''\<rparr>,
                          \<lparr>Description = ''abc'', Price = ''free''\<rparr>,
                          \<lparr>Description = ''abcdef'', Price = ''twelve''\<rparr>]"
  let ?r5 = "bareReceipt [\<lparr>Description = ''ab'', Price = ''free''\<rparr>]"
  have 1: "ParseFloat (Total ?r1) = None"
    by (simp add: ParseFloat_not_numbers)
  have 2: "ParseFloat (Total ?r2) \<noteq> None \<and> parseDate (Date ?r2) = None"
    by (simp add: targetReceipt_def ParseFloat_35_35 dates_and_times_refused)
  have 3: "ParseFloat (Total ?r3) \<noteq> None \<and> parseDate (Date ?r3) \<noteq> None
            \<and> parseClock (Time ?r3) = None"
    by (simp add: targetReceipt_def ParseFloat_35_35 target_date dates_and_times_refused)
  have 4: "ParseFloat (Total ?r4) \<noteq> None \<and> parseDate (Date ?r4) \<noteq> None
            \<and> parseClock (Time ?r4) \<noteq> None"
    and 5: "ParseFloat (Total ?r5) \<noteq> None \<and> parseDate (Date ?r5) \<noteq> None
            \<and> parseClock (Time ?r5) \<noteq> None
            \<and> (\<forall>item \<in> set (Items ?r5). \<not> qualifies item)"
    by (simp_all add: bareReceipt_def bare_bonuses qualifies_def byte_def asciiSpace_def)
  have f: "find (\<lambda>item. qualifies item \<and> ParseFloat (Price item) = None) (Items ?r4)
             = Some \<lparr>Description = ''abc'', Price = ''free''\<rparr>"
    by (simp add: bareReceipt_def qualifies_def byte_def asciiSpace_def ParseFloat_not_numbers)
  from checks_in_order [of ?r1 examplePlatform initial "[]"] 1
  have "tallyPoints examplePlatform ?r1 = Inl InvalidTotal"
    by blast
  moreover from checks_in_order [of ?r2 examplePlatform initial "[]"] 2
  have "tallyPoints examplePlatform ?r2 = Inl InvalidDate"
    by blast
  moreover from checks_in_order [of ?r3 examplePlatform initial "[]"] 3
  have "tallyPoints examplePlatform ?r3 = Inl InvalidTime"
    by blast
  moreover from checks_in_order [of ?r4 examplePlatform initial "[]"] 4
  have "tallyPoints examplePlatform ?r4 = Inl (InvalidItemPrice ''abc'')"
    unfolding f by simp
  moreover from checks_in_order [of ?r5 examplePlatform initial "[]"] 5
  have "\<exists>points. tallyPoints examplePlatform ?r5 = Inr points"
    by blast
  ultimately show ?thesis
    by blast
qed

text \<open>
  Descriptions with U+00F1 and a price that does not parse, next to the same words
  without the tilde.
\<close>

lemma n_tilde_unparsed:
  "tallyPoints P (bareReceipt [\<lparr>Description = pinata, Price = ''free''\<rparr>]) = Inr 0"
  "tallyPoints P (bareReceipt [\<lparr>Description = jalapeno, Price = ''free''\<rparr>])
     = Inl (InvalidItemPrice jalapeno)"
  "tallyPoints P (bareReceipt [\<lparr>Description = ''Pinata'', Price = ''free''\<rparr>])
     = Inl (InvalidItemPrice ''Pinata'')"
  "tallyPoints P (bareReceipt [\<lparr>Description = ''Jalapeno'', Price = ''free''\<rparr>]) = Inr 0"
  by (simp_all add: bare_tally unpriced_def qualifies_def descriptionBonus_def itemPairBonus_def
      ParseFloat_not_numbers wrap64_def byte_def asciiSpace_def pinata_def jalapeno_def)

lemma n_tilde_scan:
  "scanReceipt P (Some (bareReceipt [\<lparr>Description = pinata, Price = ''free''\<rparr>])) \<sigma> =
       ((201, Id (uuidNew P (uuidsDrawn \<sigma>))),
        \<sigma>\<lparr>receiptPoints := (receiptPoints \<sigma>)(uuidNew P (uuidsDrawn \<sigma>) \<mapsto> 0),
          uuidsDrawn := Suc (uuidsDrawn \<sigma>)\<rparr>)"
  "scanReceipt P (Some (bareReceipt [\<lparr>Description = ''Pinata'', Price = ''free''\<rparr>])) \<sigma> =
       ((400, Message ''Failed to parse price to float for item: Pinata''), \<sigma>)"
  "fst (scanReceipt P (Some (bareReceipt [\<lparr>Description = jalapeno, Price = ''free''\<rparr>])) \<sigma>)
       = (400, Message (''Failed to parse price to float for item: '' @ jalapeno))"
  by (simp_all add: scanReceipt_def n_tilde_unparsed Let_def)

section \<open>The claims\<close>

text \<open>
  C1. The receipt of the end-to-end scenario (retailer Target, five items, total 35.35) is
  scored, on every platform, with exactly 28 points: \<^verbatim>\<open>scanReceipt\<close> answers 201 with a
  new identifier and stores 28 under it, and \<^verbatim>\<open>getPoints\<close> then returns 28 for that
  identifier.
\<close>

theorem target_receipt_28:
  "tallyPoints P targetReceipt = Inr 28
   \<and> scanReceipt P (Some targetReceipt) \<sigma> =
       ((201, Id (uuidNew P (uuidsDrawn \<sigma>))),
        \<sigma>\<lparr>receiptPoints := (receiptPoints \<sigma>)(uuidNew P (uuidsDrawn \<sigma>) \<mapsto> 28),
          uuidsDrawn := Suc (uuidsDrawn \<sigma>)\<rparr>)
   \<and> fst (getPoints (uuidNew P (uuidsDrawn \<sigma>)) (snd (scanReceipt P (Some targetReceipt) \<sigma>)))
       = (200, Points 28)"
  by (simp add: target_tally scanReceipt_def getPoints_def Let_def)

text \<open>
  C2. For every receipt that is scored, the time parses to an hour and a minute, and the
  afternoon rule adds 10 exactly when the time lies strictly between 14:00 and 16:00: at
  hour 14 only with a minute above zero, at hour 15 always, at any other hour never.  In
  particular 14:00 and 16:00 earn nothing, 14:01 and 15:59 earn 10.  The points are the
  wrapped sum of the rules, the afternoon rule among them.
\<close>

theorem afternoon_bonus:
  assumes "tallyPoints P receipt = Inr points"
  shows "(\<exists>hour minute.
            parseClock (Time receipt) = Some (hour, minute)
            \<and> afternoonBonus (Time receipt) =
                (if 14 * 60 < hour * 60 + minute \<and> hour * 60 + minute < 16 * 60
                 then 10 else 0)
            \<and> (hour = 14 \<longrightarrow> (afternoonBonus (Time receipt) = 10 \<longleftrightarrow> 0 < minute))
            \<and> (hour = 15 \<longrightarrow> afternoonBonus (Time receipt) = 10)
            \<and> (hour \<noteq> 14 \<and> hour \<noteq> 15 \<longrightarrow> afternoonBonus (Time receipt) = 0))
         \<and> points =
             wrap64 (retailerBonus P receipt + roundDollarBonus (Total receipt)
                     + quarterBonus (Total receipt) + itemPairBonus (Items receipt)
                     + sum_list (map (descriptionBonus P) (Items receipt))
                     + oddDayBonus (Date receipt) + afternoonBonus (Time receipt))
         \<and> afternoonBonus ''14:00'' = 0 \<and> afternoonBonus ''14:01'' = 10
         \<and> afternoonBonus ''15:59'' = 10 \<and> afternoonBonus ''16:00'' = 0"
proof -
  from tallyPoints_parsed(3) [OF assms] obtain hour minute
    where c: "parseClock (Time receipt) = Some (hour, minute)"
    by auto
  from parseClock_range [OF c] have "minute < 60" ..
  then have "afternoonBonus (Time receipt) =
               (if 14 * 60 < hour * 60 + minute \<and> hour * 60 + minute < 16 * 60 then 10 else 0)"
    unfolding afternoonBonus_def c by auto
  moreover have "hour = 14 \<longrightarrow> (afternoonBonus (Time receipt) = 10 \<longleftrightarrow> 0 < minute)"
    and "hour = 15 \<longrightarrow> afternoonBonus (Time receipt) = 10"
    and "hour \<noteq> 14 \<and> hour \<noteq> 15 \<longrightarrow> afternoonBonus (Time receipt) = 0"
    unfolding afternoonBonus_def c by auto
  ultimately have "\<exists>hour minute.
            parseClock (Time receipt) = Some (hour, minute)
            \<and> afternoonBonus (Time receipt) =
                (if 14 * 60 < hour * 60 + minute \<and> hour * 60 + minute < 16 * 60
                 then 10 else 0)
            \<and> (hour = 14 \<longrightarrow> (afternoonBonus (Time receipt) = 10 \<longleftrightarrow> 0 < minute))
            \<and> (hour = 15 \<longrightarrow> afternoonBonus (Time receipt) = 10)
            \<and> (hour \<noteq> 14 \<and> hour \<noteq> 15 \<longrightarrow> afternoonBonus (Time receipt) = 0)"
    using c by blast
  with tallyPoints_sum [OF assms] show ?thesis
    by (simp only: afternoon_examples simp_thms)
qed

theorem afternoon_bonus_witness:
  "tallyPoints examplePlatform (targetReceipt\<lparr>Time := ''14:01''\<rparr>) = Inr 38
   \<and> tallyPoints examplePlatform (targetReceipt\<lparr>Time := ''14:00''\<rparr>) = Inr 28
   \<and> afternoonBonus (Time (targetReceipt\<lparr>Time := ''14:01''\<rparr>)) = 10
   \<and> afternoonBonus (Time (targetReceipt\<lparr>Time := ''14:00''\<rparr>)) = 0"
proof -
  have a: "tallyPoints examplePlatform (targetReceipt\<lparr>Time := ''14:01''\<rparr>) = Inr 38"
    using target_variant [of "''35.35''" "''2022-01-01''" "''14:01''" examplePlatform]
    by (simp add: targetReceipt_def ParseFloat_35_35 target_date afternoon_examples
        bonuses_35_35 bonus_2022_01_01 wrap64_def)
  have b: "tallyPoints examplePlatform (targetReceipt\<lparr>Time := ''14:00''\<rparr>) = Inr 28"
    using target_variant [of "''35.35''" "''2022-01-01''" "''14:00''" examplePlatform]
    by (simp add: targetReceipt_def ParseFloat_35_35 target_date afternoon_examples
        bonuses_35_35 bonus_2022_01_01 wrap64_def)
  from afternoon_bonus [OF a] afternoon_bonus [OF b] a b show ?thesis
    by (simp add: afternoon_examples)
qed

text \<open>
  C3. The rule for descriptions measures the trimmed description with \<^verbatim>\<open>len\<close>, which counts
  bytes, not characters.  The description \<^verbatim>\<open>Pi\<close>, U+00F1, \<^verbatim>\<open>ata\<close> has six characters and seven
  bytes: with the price 5.00 it earns nothing, where the same word without the tilde
  earns 1.  The description \<^verbatim>\<open>Jalape\<close>, U+00F1, \<^verbatim>\<open>o\<close> has eight characters and nine bytes:
  it earns 1.  (On ASCII descriptions the two lengths agree: \<open>ascii_description_length\<close>.)
  A description of spaces only trims to the empty string, whose length 0 qualifies.
\<close>

theorem description_length_counts_bytes:
  "length (runes (TrimSpace pinata)) = 6 \<and> length (TrimSpace pinata) = 7
   \<and> tallyPoints P (bareReceipt [\<lparr>Description = pinata, Price = ''5.00''\<rparr>]) = Inr 0
   \<and> length (runes (TrimSpace ''Pinata'')) = 6 \<and> length (TrimSpace ''Pinata'') = 6
   \<and> tallyPoints P (bareReceipt [\<lparr>Description = ''Pinata'', Price = ''5.00''\<rparr>]) = Inr 1
   \<and> length (runes (TrimSpace jalapeno)) = 8 \<and> length (TrimSpace jalapeno) = 9
   \<and> tallyPoints P (bareReceipt [\<lparr>Description = jalapeno, Price = ''5.00''\<rparr>]) = Inr 1
   \<and> TrimSpace ''   '' = [] \<and> qualifies \<lparr>Description = ''   '', Price = price\<rparr>"
  by (intro conjI)
    (fact n_tilde_lengths n_tilde_tally | simp add: qualifies_def byte_def asciiSpace_def)+

text \<open>
  C4. A price that does not parse stops the handler only when the number of bytes of the
  trimmed description is divisible by 3, not when the number of characters is.  The
  description \<^verbatim>\<open>Pi\<close>, U+00F1, \<^verbatim>\<open>ata\<close> has six characters and seven bytes: with the price
  \<^verbatim>\<open>free\<close>, which does not parse, the receipt is not refused; the handler answers 201,
  draws an identifier and stores 0 points.  The same receipt with the description
  \<^verbatim>\<open>Pinata\<close> is refused with 400, and the state is left as it was.
\<close>

theorem unparsed_price_is_stored:
  "length (runes (TrimSpace pinata)) = 6 \<and> ParseFloat ''free'' = None
   \<and> scanReceipt P (Some (bareReceipt [\<lparr>Description = pinata, Price = ''free''\<rparr>])) \<sigma> =
       ((201, Id (uuidNew P (uuidsDrawn \<sigma>))),
        \<sigma>\<lparr>receiptPoints := (receiptPoints \<sigma>)(uuidNew P (uuidsDrawn \<sigma>) \<mapsto> 0),
          uuidsDrawn := Suc (uuidsDrawn \<sigma>)\<rparr>)
   \<and> length (runes (TrimSpace ''Pinata'')) = 6
   \<and> scanReceipt P (Some (bareReceipt [\<lparr>Description = ''Pinata'', Price = ''free''\<rparr>])) \<sigma> =
       ((400, Message ''Failed to parse price to float for item: Pinata''), \<sigma>)"
  by (intro conjI) (fact n_tilde_lengths n_tilde_scan ParseFloat_not_numbers)+

text \<open>
  C5. Whether the price of an item is checked follows the number of bytes of its trimmed
  description, not the number of characters.  The description \<^verbatim>\<open>Jalape\<close>, U+00F1, \<^verbatim>\<open>o\<close>
  has eight characters and nine bytes: with the price \<^verbatim>\<open>free\<close>, which does not parse,
  the receipt is refused with the failure of the item's price, where the same word
  without the tilde is scored.  The description \<^verbatim>\<open>Pi\<close>, U+00F1, \<^verbatim>\<open>ata\<close> has six characters
  and seven bytes: its price \<^verbatim>\<open>free\<close> is never read and the receipt is scored, where the
  same word without the tilde is refused.
\<close>

theorem price_checks_follow_bytes:
  "length (runes (TrimSpace jalapeno)) = 8 \<and> length (TrimSpace jalapeno) = 9
   \<and> ParseFloat ''free'' = None
   \<and> tallyPoints P (bareReceipt [\<lparr>Description = jalapeno, Price = ''free''\<rparr>])
       = Inl (InvalidItemPrice jalapeno)
   \<and> fst (scanReceipt P (Some (bareReceipt [\<lparr>Description = jalapeno, Price = ''free''\<rparr>])) \<sigma>)
       = (400, Message (''Failed to parse price to float for item: '' @ jalapeno))
   \<and> tallyPoints P (bareReceipt [\<lparr>Description = ''Jalapeno'', Price = ''free''\<rparr>]) = Inr 0
   \<and> length (runes (TrimSpace pinata)) = 6 \<and> length (TrimSpace pinata) = 7
   \<and> tallyPoints P (bareReceipt [\<lparr>Description = pinata, Price = ''free''\<rparr>]) = Inr 0
   \<and> tallyPoints P (bareReceipt [\<lparr>Description = ''Pinata'', Price = ''free''\<rparr>])
       = Inl (InvalidItemPrice ''Pinata'')"
  by (intro conjI) (fact n_tilde_lengths n_tilde_scan n_tilde_unparsed ParseFloat_not_numbers)+

text \<open>
  C6. A receipt with the total 100.00 that is scored earns the 50 points of the round
  dollar amount and the 25 points of the multiple of 0.25, 75 points on top of the other
  rules; one with the total 10.10 earns neither.
\<close>

theorem round_and_quarter_bonus:
  "(Total receipt = ''100.00'' \<and> tallyPoints P receipt = Inr points \<longrightarrow>
      roundDollarBonus (Total receipt) = 50 \<and> quarterBonus (Total receipt) = 25
      \<and> points = wrap64 (retailerBonus P receipt + 75 + itemPairBonus (Items receipt)
                          + sum_list (map (descriptionBonus P) (Items receipt))
                          + oddDayBonus (Date receipt) + afternoonBonus (Time receipt)))
   \<and> (Total receipt = ''10.10'' \<and> tallyPoints P receipt = Inr points \<longrightarrow>
      roundDollarBonus (Total receipt) = 0 \<and> quarterBonus (Total receipt) = 0
      \<and> points = wrap64 (retailerBonus P receipt + itemPairBonus (Items receipt)
                          + sum_list (map (descriptionBonus P) (Items receipt))
                          + oddDayBonus (Date receipt) + afternoonBonus (Time receipt)))"
proof (intro conjI impI; elim conjE)
  assume t: "Total receipt = ''100.00''" and s: "tallyPoints P receipt = Inr points"
  have "retailerBonus P receipt + 50 + 25 = retailerBonus P receipt + 75"
    by simp
  with tallyPoints_sum [OF s]
  show "points = wrap64 (retailerBonus P receipt + 75 + itemPairBonus (Items receipt)
                          + sum_list (map (descriptionBonus P) (Items receipt))
                          + oddDayBonus (Date receipt) + afternoonBonus (Time receipt))"
    unfolding t total_bonus_examples by simp
  show "roundDollarBonus (Total receipt) = 50" "quarterBonus (Total receipt) = 25"
    unfolding t by (fact total_bonus_examples)+
next
  assume t: "Total receipt = ''10.10''" and s: "tallyPoints P receipt = Inr points"
  from tallyPoints_sum [OF s]
  show "points = wrap64 (retailerBonus P receipt + itemPairBonus (Items receipt)
                          + sum_list (map (descriptionBonus P) (Items receipt))
                          + oddDayBonus (Date receipt) + afternoonBonus (Time receipt))"
    unfolding t total_bonus_examples by simp
  show "roundDollarBonus (Total receipt) = 0" "quarterBonus (Total receipt) = 0"
    unfolding t by (fact total_bonus_examples)+
qed

theorem round_and_quarter_bonus_witness:
  "tallyPoints examplePlatform (targetReceipt\<lparr>Total := ''100.00''\<rparr>) = Inr 103
   \<and> tallyPoints examplePlatform (targetReceipt\<lparr>Total := ''10.10''\<rparr>) = Inr 28
   \<and> tallyPoints examplePlatform targetReceipt = Inr 28"
proof -
  let ?r = "targetReceipt\<lparr>Total := ''100.00''\<rparr>" and ?s = "targetReceipt\<lparr>Total := ''10.10''\<rparr>"
  have a: "tallyPoints examplePlatform ?r = Inr 103"
    using target_variant [of "''100.00''" "''2022-01-01''" "''13:01''" examplePlatform]
    by (simp add: targetReceipt_def ParseFloat_totals target_date target_time
        total_bonus_examples bonus_2022_01_01 bare_bonuses wrap64_def)
  have b: "tallyPoints examplePlatform ?s = Inr 28"
    using target_variant [of "''10.10''" "''2022-01-01''" "''13:01''" examplePlatform]
    by (simp add: targetReceipt_def ParseFloat_totals target_date target_time
        total_bonus_examples bonus_2022_01_01 bare_bonuses wrap64_def)
  have "Total ?r = ''100.00''" and "Total ?s = ''10.10''"
    by simp_all
  with round_and_quarter_bonus [of ?r examplePlatform 103]
    round_and_quarter_bonus [of ?s examplePlatform 28] a b
  have "roundDollarBonus (Total ?r) = 50 \<and> quarterBonus (Total ?s) = 0"
    by blast
  with a b target_tally [of examplePlatform] show ?thesis
    by simp
qed

text \<open>
  C7. For every receipt that is scored, the rule for pairs of items adds five times the
  number of items halved and rounded down, so that an item without a partner adds
  nothing: no items give 0, two give 5, three give 5, four give 10.
\<close>

theorem item_pair_bonus:
  assumes "tallyPoints P receipt = Inr points"
  shows "itemPairBonus (Items receipt) = 5 * \<lfloor>real (length (Items receipt)) / 2\<rfloor>
         \<and> points =
             wrap64 (retailerBonus P receipt + roundDollarBonus (Total receipt)
                     + quarterBonus (Total receipt) + itemPairBonus (Items receipt)
                     + sum_list (map (descriptionBonus P) (Items receipt))
                     + oddDayBonus (Date receipt) + afternoonBonus (Time receipt))
         \<and> (length (Items receipt) = 0 \<longrightarrow> itemPairBonus (Items receipt) = 0)
         \<and> (length (Items receipt) = 2 \<longrightarrow> itemPairBonus (Items receipt) = 5)
         \<and> (length (Items receipt) = 3 \<longrightarrow> itemPairBonus (Items receipt) = 5)
         \<and> (length (Items receipt) = 4 \<longrightarrow> itemPairBonus (Items receipt) = 10)"
  using tallyPoints_sum [OF assms] by (simp add: itemPairBonus_def floor_half)

theorem item_pair_bonus_witness:
  "tallyPoints examplePlatform (bareReceipt []) = Inr 0
   \<and> tallyPoints examplePlatform
       (bareReceipt [\<lparr>Description = ''a'', Price = ''1''\<rparr>, \<lparr>Description = ''b'', Price = ''1''\<rparr>])
     = Inr 5
   \<and> tallyPoints examplePlatform
       (bareReceipt [\<lparr>Description = ''a'', Price = ''1''\<rparr>, \<lparr>Description = ''b'', Price = ''1''\<rparr>,
                     \<lparr>Description = ''c'', Price = ''1''\<rparr>])
     = Inr 5
   \<and> tallyPoints examplePlatform
       (bareReceipt [\<lparr>Description = ''a'', Price = ''1''\<rparr>, \<lparr>Description = ''b'', Price = ''1''\<rparr>,
                     \<lparr>Description = ''c'', Price = ''1''\<rparr>, \<lparr>Description = ''d'', Price = ''1''\<rparr>])
     = Inr 10
   \<and> itemPairBonus (Items (bareReceipt [\<lparr>Description = ''a'', Price = ''1''\<rparr>,
                                         \<lparr>Description = ''b'', Price = ''1''\<rparr>,
                                         \<lparr>Description = ''c'', Price = ''1''\<rparr>])) = 5"
proof -
  let ?three = "bareReceipt [\<lparr>Description = ''a'', Price = ''1''\<rparr>, \<lparr>Description = ''b'', Price = ''1''\<rparr>,
                     \<lparr>Description = ''c'', Price = ''1''\<rparr>]"
  have e: "tallyPoints examplePlatform (bareReceipt []) = Inr 0"
    "tallyPoints examplePlatform
       (bareReceipt [\<lparr>Description = ''a'', Price = ''1''\<rparr>, \<lparr>Description = ''b'', Price = ''1''\<rparr>])
     = Inr 5"
    "tallyPoints examplePlatform ?three = Inr 5"
    "tallyPoints examplePlatform
       (bareReceipt [\<lparr>Description = ''a'', Price = ''1''\<rparr>, \<lparr>Description = ''b'', Price = ''1''\<rparr>,
                     \<lparr>Description = ''c'', Price = ''1''\<rparr>, \<lparr>Description = ''d'', Price = ''1''\<rparr>])
     = Inr 10"
    by (simp_all add: bare_tally unpriced_def qualifies_def descriptionBonus_def itemPairBonus_def
        byte_def asciiSpace_def wrap64_def)
  have "length (Items ?three) = 3"
    by (simp add: bareReceipt_def)
  with item_pair_bonus [OF e(3)] have "itemPairBonus (Items ?three) = 5"
    by blast
  with e show ?thesis
    by simp
qed

text \<open>
  C8. \<^verbatim>\<open>getPoints\<close> answers 200 with the stored points when the identifier is a key of the
  map, and 404 with the message \<^verbatim>\<open>Points not found for that id.\<close> when it is not; it is
  defined for every identifier and every state, and it returns the state as it was.
\<close>

theorem getPoints_lookup:
  "(receiptPoints \<sigma> inputId = Some points \<longrightarrow>
      getPoints inputId \<sigma> = ((200, Points points), \<sigma>))
   \<and> (receiptPoints \<sigma> inputId = None \<longrightarrow>
      getPoints inputId \<sigma> = ((404, Message ''Points not found for that id.''), \<sigma>))
   \<and> snd (getPoints inputId \<sigma>) = \<sigma>"
  by (simp add: getPoints_def split: option.splits)

theorem getPoints_lookup_witness:
  "getPoints ''u'' (snd (scanReceipt examplePlatform (Some targetReceipt) initial))
     = ((200, Points 28), snd (scanReceipt examplePlatform (Some targetReceipt) initial))
   \<and> getPoints ''never issued'' (snd (scanReceipt examplePlatform (Some targetReceipt) initial))
     = ((404, Message ''Points not found for that id.''),
        snd (scanReceipt examplePlatform (Some targetReceipt) initial))
   \<and> getPoints ''u'' initial = ((404, Message ''Points not found for that id.''), initial)"
proof -
  let ?\<sigma> = "snd (scanReceipt examplePlatform (Some targetReceipt) initial)"
  have s: "receiptPoints ?\<sigma> = [''u'' \<mapsto> 28]"
    by (simp add: scanReceipt_def target_tally initial_def examplePlatform_def Let_def)
  have "receiptPoints ?\<sigma> ''u'' = Some 28" and "receiptPoints ?\<sigma> ''never issued'' = None"
    and "receiptPoints initial ''u'' = None"
    unfolding s by (simp_all add: initial_def)
  with getPoints_lookup [of ?\<sigma> "''u''" 28] getPoints_lookup [of ?\<sigma> "''never issued''" 0]
    getPoints_lookup [of initial "''u''" 0]
  show ?thesis
    by blast
qed

text \<open>
  C10. Nothing checks that an amount is not negative.  The total -5.00 parses, and earns
  the 50 points of the round amount and the 25 points of the multiple of 0.25; an item
  that qualifies with the price -1000.00 earns -200 points; and the receipt with both is
  scored -125, which \<^verbatim>\<open>scanReceipt\<close> stores.
\<close>

theorem negative_amounts_are_scored:
  "ParseFloat ''-5.00'' = Some (Finite (- 5))
   \<and> roundDollarBonus ''-5.00'' = 50 \<and> quarterBonus ''-5.00'' = 25
   \<and> descriptionBonus P \<lparr>Description = ''abc'', Price = ''-1000.00''\<rparr> = - 200
   \<and> tallyPoints P
       (bareReceipt [\<lparr>Description = ''abc'', Price = ''-1000.00''\<rparr>]\<lparr>Total := ''-5.00''\<rparr>)
     = Inr (- 125)
   \<and> receiptPoints
       (snd (scanReceipt P
              (Some (bareReceipt [\<lparr>Description = ''abc'', Price = ''-1000.00''\<rparr>]
                       \<lparr>Total := ''-5.00''\<rparr>)) \<sigma>))
       (uuidNew P (uuidsDrawn \<sigma>)) = Some (- 125)"
proof -
  let ?r = "bareReceipt [\<lparr>Description = ''abc'', Price = ''-1000.00''\<rparr>]\<lparr>Total := ''-5.00''\<rparr>"
  have f: "Total ?r = ''-5.00''" "Date ?r = ''2022-01-02''" "Time ?r = ''13:01''"
    "Items ?r = [\<lparr>Description = ''abc'', Price = ''-1000.00''\<rparr>]"
    "retailerBonus P ?r = 0"
    by (simp_all add: bareReceipt_def retailerBonus_def retailerAlphanumericChars_def
        runes.simps)
  have t: "tallyPoints P ?r = Inr (- 125)"
    unfolding tallyPoints_cases f
    by (simp add: ParseFloat_totals total_bonus_examples bare_bonuses negative_item
        itemPairBonus_def wrap64_def)
  then show ?thesis
    by (simp add: ParseFloat_totals total_bonus_examples negative_item scanReceipt_def Let_def)
qed

end
